theory Spec2Isabelle
  imports Complex_Main
begin

section \<open>Python values and exceptions\<close>

text \<open>
  The resolvers of \<^verbatim>\<open>crm/schema.py\<close> are embedded as functions over an explicit
  database state. An exception is a value of \<open>error\<close>; a resolver that raises returns
  \<open>Inl\<close> of it. \<open>Exception\<close> carries the message the resolver builds;
  \<open>IntegrityError\<close> carries the message of the database backend; the other constructors are
  raised by Python or by the ORM and carry what the resolvers can observe of them.
\<close>

record ValidationError =
  message :: string
  code :: "string option"

datatype error =
    Exception string
  | Validation ValidationError
  | AttributeError string
  | TypeError
  | ValueError
  | MultipleObjectsReturned
  | IntegrityError string
  | InvalidOperation
  | GraphQLError

text \<open>
  A \<^verbatim>\<open>decimal.Decimal\<close>, as \<^verbatim>\<open>graphene.Decimal\<close> parses one: a finite number, a NaN
  (quiet or signalling), or an infinity. A finite decimal is the rational it denotes.
\<close>

datatype decimal = Num rat | NaN | PosInf | NegInf

text \<open>
  \<^verbatim>\<open>d <= 0\<close> on a \<^verbatim>\<open>Decimal\<close>: an ordering comparison with a NaN raises
  \<^verbatim>\<open>InvalidOperation\<close>.
\<close>

definition decimal_le_zero :: "decimal \<Rightarrow> error + bool" where
  "decimal_le_zero d =
     (case d of Num r \<Rightarrow> Inr (r \<le> 0) | NaN \<Rightarrow> Inl InvalidOperation
      | PosInf \<Rightarrow> Inr False | NegInf \<Rightarrow> Inr True)"

text \<open>The apostrophe, for the quoted parts of the f-strings.\<close>

definition apos :: string where
  "apos = [CHR 0x27]"

text \<open>
  Truth value of an optional string: \<^verbatim>\<open>None\<close> and \<^verbatim>\<open>""\<close> are false. Where
  \<open>truthy v\<close> holds, \<open>v\<close> is \<open>Some\<close> of a non-empty string, and \<open>the v\<close> is that string.
\<close>

definition truthy :: "string option \<Rightarrow> bool" where
  "truthy v = (case v of None \<Rightarrow> False | Some s \<Rightarrow> s \<noteq> [])"

text \<open>\<^verbatim>\<open>sep.join(xs)\<close>\<close>

fun join :: "string \<Rightarrow> string list \<Rightarrow> string" where
  "join sep [] = []"
| "join sep [x] = x"
| "join sep (x # y # ys) = x @ sep @ join sep (y # ys)"

section \<open>The phone validator\<close>

text \<open>
  The pattern of \<^verbatim>\<open>phone_validator\<close> uses literals, \<^verbatim>\<open>\d\<close>, character sets,
  sequence, alternation, \<^verbatim>\<open>?\<close> and bounded repetition. \<open>rests r s\<close> lists what is left
  of \<open>s\<close> after each way of matching \<open>r\<close> at its start, as the backtracking matcher
  explores them. Strings are 8-bit here, where \<^verbatim>\<open>\d\<close> is \<^verbatim>\<open>0\<close> to \<^verbatim>\<open>9\<close>.
\<close>

datatype regex =
    Eps
  | Lit char
  | OneOf "char list"
  | Seq regex regex
  | Alt regex regex
  | Opt regex

fun rests :: "regex \<Rightarrow> string \<Rightarrow> string list" where
  "rests Eps s = [s]"
| "rests (Lit c) [] = []"
| "rests (Lit c) (x # xs) = (if x = c then [xs] else [])"
| "rests (OneOf cs) [] = []"
| "rests (OneOf cs) (x # xs) = (if x \<in> set cs then [xs] else [])"
| "rests (Seq a b) s = concat (map (rests b) (rests a s))"
| "rests (Alt a b) s = rests a s @ rests b s"
| "rests (Opt a) s = rests a s @ [s]"

definition digit :: regex where
  "digit = OneOf ''0123456789''"

text \<open>\<^verbatim>\<open>r{n}\<close> and \<^verbatim>\<open>r{lo,hi}\<close>\<close>

fun times :: "regex \<Rightarrow> nat \<Rightarrow> regex" where
  "times r 0 = Eps"
| "times r (Suc n) = Seq r (times r n)"

fun upto_times :: "regex \<Rightarrow> nat \<Rightarrow> regex" where
  "upto_times r 0 = Eps"
| "upto_times r (Suc n) = Opt (Seq r (upto_times r n))"

definition rep :: "regex \<Rightarrow> nat \<Rightarrow> nat \<Rightarrow> regex" where
  "rep r lo hi = Seq (times r lo) (upto_times r (hi - lo))"

text \<open>
  \<^verbatim>\<open>^\+?\d{1,3}[- ]?(\d{3}[- ]?\d{3}[- ]?\d{4}|\(\d{3}\)[- ]?\d{3}[- ]?\d{4}|\d{10,15})$\<close>
  without its anchors.
\<close>

definition sep_opt :: regex where
  "sep_opt = Opt (OneOf ''- '')"

definition phone_regex :: regex where
  "phone_regex =
     Seq (Opt (Lit (CHR ''+'')))
    (Seq (rep digit 1 3)
    (Seq sep_opt
         (Alt (Alt (Seq (times digit 3) (Seq sep_opt (Seq (times digit 3)
                     (Seq sep_opt (times digit 4)))))
                   (Seq (Lit (CHR ''('')) (Seq (times digit 3) (Seq (Lit (CHR '')''))
                     (Seq sep_opt (Seq (times digit 3) (Seq sep_opt (times digit 4))))))))
              (rep digit 10 15))))"

text \<open>
  \<^verbatim>\<open>regex.search(value)\<close> for a pattern between \<^verbatim>\<open>^\<close> and \<^verbatim>\<open>$\<close>: the match starts
  at the first character, and \<^verbatim>\<open>$\<close> holds at the end of the string and just before a
  newline that ends it.
\<close>

definition search_anchored :: "regex \<Rightarrow> string \<Rightarrow> bool" where
  "search_anchored r s = (\<exists>t \<in> set (rests r s). t = [] \<or> t = [CHR 0x0A])"

definition phone_message :: string where
  "phone_message = ''Phone number must be entered in the format: '' @ apos @ ''+999999999''
     @ apos @ ''. Up to 15 digits allowed.''"

text \<open>A validator returns \<open>None\<close> when it passes and the \<open>ValidationError\<close> it raises otherwise.\<close>

definition phone_validator :: "string \<Rightarrow> ValidationError option" where
  "phone_validator v =
     (if search_anchored phone_regex v then None
      else Some \<lparr>message = phone_message, code = Some ''invalid''\<rparr>)"

text \<open>
  \<^verbatim>\<open>e.code_list\<close>: a \<open>ValidationError\<close> built from one message has the attributes
  \<^verbatim>\<open>message\<close>, \<^verbatim>\<open>code\<close>, \<^verbatim>\<open>params\<close> and \<^verbatim>\<open>error_list\<close> (and the properties
  \<^verbatim>\<open>messages\<close> and \<^verbatim>\<open>message_dict\<close>); it has no attribute \<^verbatim>\<open>code_list\<close>, so reading
  it raises \<open>AttributeError\<close>.
\<close>

definition code_list :: "ValidationError \<Rightarrow> error + string list" where
  "code_list e = Inl (AttributeError ''code_list'')"

section \<open>The environment of a request\<close>

text \<open>
  What the resolvers take from outside the repository: the framework's e-mail validator,
  Python's \<^verbatim>\<open>int\<close> on a string (\<open>None\<close> where it raises), the clock read by
  \<^verbatim>\<open>auto_now_add\<close>, and the arithmetic of the database. The database is SQLite, whose
  \<^verbatim>\<open>decimal\<close> columns hold binary floating-point numbers; floating-point rounding is not
  modelled but taken from the environment, each double being the rational it denotes:
  \<^item> \<open>column_real r\<close> is the double that the column holds after the finite decimal \<open>r\<close>
    is written to it;
  \<^item> \<open>save_nonfinite d\<close> is what writing a NaN or an infinity does: the error the ORM
    raises, or the content of the column;
  \<^item> \<open>sum_real xs\<close> is the \<^verbatim>\<open>SUM\<close> of the database over the doubles \<open>xs\<close>, in row order;
  \<^item> \<open>decimal_of_real x\<close> is the \<^verbatim>\<open>Decimal\<close> that the ORM makes of the double \<open>x\<close> of
    an aggregate (15 significant digits).
\<close>

record env =
  validate_email :: "string \<Rightarrow> ValidationError option"
  py_int :: "string \<Rightarrow> int option"
  now :: nat
  column_real :: "rat \<Rightarrow> rat"
  save_nonfinite :: "decimal \<Rightarrow> error + rat"
  sum_real :: "rat list \<Rightarrow> rat"
  decimal_of_real :: "rat \<Rightarrow> rat"

section \<open>The tables of \<^verbatim>\<open>crm/models.py\<close>\<close>

record Customer =
  c_id :: int
  c_name :: string
  c_email :: string
  c_phone :: "string option"
  c_created_at :: nat

text \<open>
  A product is a row of the table, whose price is the double of the column, or the
  instance that \<^verbatim>\<open>create\<close> returns, whose price is the \<^verbatim>\<open>Decimal\<close> it was given.
\<close>

record 'p Product =
  p_id :: int
  p_name :: string
  p_price :: 'p
  p_stock :: int

text \<open>
  An order is a row or an instance as well; \<open>o_total_amount\<close> is the double of the column
  in a row and the value of the attribute in an instance.
\<close>

record Order =
  o_id :: int
  o_customer :: int
  o_order_date :: nat
  o_total_amount :: rat

text \<open>
  \<open>order_products\<close> is the table behind the many-to-many field \<^verbatim>\<open>Order.products\<close>: one
  row (order id, product id) for each association.
\<close>

record store =
  customers :: "Customer list"
  products :: "rat Product list"
  orders :: "Order list"
  order_products :: "(int \<times> int) list"

text \<open>The key of a new row: one more than the largest key of the table.\<close>

definition next_pk :: "int list \<Rightarrow> int" where
  "next_pk ks = fold max ks 0 + 1"

definition unique_violation :: string where
  "unique_violation = ''UNIQUE constraint failed: crm_customer.email''"

text \<open>
  One inserted customer row. \<^verbatim>\<open>email\<close> is declared \<^verbatim>\<open>unique=True\<close>: the insert of an
  address that a row already has fails and leaves the table as it was.
\<close>

definition insert_customer ::
  "env \<Rightarrow> store \<Rightarrow> string \<times> string \<times> string option \<Rightarrow> string + (Customer \<times> store)" where
  "insert_customer ev s r =
     (case r of (name, email, phone) \<Rightarrow>
        if email \<in> set (map c_email (customers s)) then Inl unique_violation
        else
          let c = \<lparr>c_id = next_pk (map c_id (customers s)), c_name = name, c_email = email,
                   c_phone = phone, c_created_at = now ev\<rparr>
          in Inr (c, s\<lparr>customers := customers s @ [c]\<rparr>))"

text \<open>\<^verbatim>\<open>Customer.objects.create(name=..., email=..., phone=...)\<close>\<close>

definition Customer_create ::
  "env \<Rightarrow> store \<Rightarrow> string \<Rightarrow> string \<Rightarrow> string option \<Rightarrow> error + (Customer \<times> store)" where
  "Customer_create ev s name email phone =
     (case insert_customer ev s (name, email, phone) of
        Inl m \<Rightarrow> Inl (IntegrityError m)
      | Inr r \<Rightarrow> Inr r)"

text \<open>
  \<^verbatim>\<open>Customer.objects.bulk_create(objs)\<close> inside \<^verbatim>\<open>transaction.atomic()\<close>: the rows are
  inserted in order; the first violation aborts the statement and nothing is kept.
\<close>

fun bulk_create ::
  "env \<Rightarrow> store \<Rightarrow> (string \<times> string \<times> string option) list \<Rightarrow> string + (Customer list \<times> store)" where
  "bulk_create ev s [] = Inr ([], s)"
| "bulk_create ev s (r # rs) =
     (case insert_customer ev s r of
        Inl m \<Rightarrow> Inl m
      | Inr (c, s') \<Rightarrow>
          (case bulk_create ev s' rs of
             Inl m \<Rightarrow> Inl m
           | Inr (cs, s'') \<Rightarrow> Inr (c # cs, s'')))"

section \<open>\<^verbatim>\<open>CreateCustomer\<close>\<close>

record CustomerInput =
  name :: string
  email :: string
  phone :: "string option"

text \<open>The body of the \<^verbatim>\<open>try\<close> block.\<close>

definition CreateCustomer_try ::
  "env \<Rightarrow> store \<Rightarrow> CustomerInput \<Rightarrow> (error + (Customer \<times> string)) \<times> store" where
  "CreateCustomer_try ev s inp =
     (case validate_email ev (email inp) of
        Some e \<Rightarrow> (Inl (Validation e), s)
      | None \<Rightarrow>
         (case (if truthy (phone inp) then phone_validator (the (phone inp)) else None) of
            Some e \<Rightarrow> (Inl (Validation e), s)
          | None \<Rightarrow>
              if email inp \<in> set (map c_email (customers s))
              then (Inl (Validation \<lparr>message = ''Email already exists.'',
                                      code = Some ''duplicate''\<rparr>), s)
              else
                (case Customer_create ev s (name inp) (email inp) (phone inp) of
                   Inl e \<Rightarrow> (Inl e, s)
                 | Inr (customer, s') \<Rightarrow>
                     (Inr (customer, ''Customer '' @ apos @ name inp @ apos
                              @ '' created successfully.''), s'))))"

text \<open>
  The handler \<^verbatim>\<open>except ValidationError as e\<close>: another exception passes through it.
\<close>

fun CreateCustomer_except :: "string \<Rightarrow> error \<Rightarrow> error" where
  "CreateCustomer_except addr (Validation e) =
     (case code_list e of
        Inl a \<Rightarrow> a
      | Inr codes \<Rightarrow>
          if ''duplicate'' \<in> set codes
          then Exception (''Validation Error: Email '' @ apos @ addr @ apos @ '' already exists.'')
          else Exception (''Validation Error: '' @ message e))"
| "CreateCustomer_except addr e = e"

definition CreateCustomer_mutate ::
  "env \<Rightarrow> store \<Rightarrow> CustomerInput \<Rightarrow> (error + (Customer \<times> string)) \<times> store" where
  "CreateCustomer_mutate ev s inp =
     (case CreateCustomer_try ev s inp of
        (Inl e, s') \<Rightarrow> (Inl (CreateCustomer_except (email inp) e), s')
      | (Inr r, s') \<Rightarrow> (Inr r, s'))"

section \<open>\<^verbatim>\<open>BulkCreateCustomers\<close>\<close>

text \<open>\<^verbatim>\<open>BulkCustomerInput\<close> declares the fields of \<^verbatim>\<open>CustomerInput\<close> again.\<close>

type_synonym BulkCustomerInput = CustomerInput

text \<open>
  \<^verbatim>\<open>set(Customer.objects.filter(email__in=emails_to_check).values_list('email', flat=True))\<close>
\<close>

definition existing_emails :: "store \<Rightarrow> BulkCustomerInput list \<Rightarrow> string set" where
  "existing_emails s inp =
     (let emails_to_check = map email inp
      in set (filter (\<lambda>e. e \<in> set emails_to_check) (map c_email (customers s))))"

text \<open>
  One turn of the loop over the input, on the two lists it grows:
  \<^verbatim>\<open>validation_errors\<close> and \<^verbatim>\<open>customers_to_create\<close>.
\<close>

definition bulk_body ::
  "env \<Rightarrow> string set \<Rightarrow> BulkCustomerInput
     \<Rightarrow> string list \<times> (string \<times> string \<times> string option) list
     \<Rightarrow> string list \<times> (string \<times> string \<times> string option) list" where
  "bulk_body ev existing cd acc =
     (case acc of (validation_errors, customers_to_create) \<Rightarrow>
        (case
           (case validate_email ev (email cd) of
              Some e \<Rightarrow>
                (Some (''Record for '' @ apos @ name cd @ apos @ '' failed: '' @ message e),
                 customers_to_create)
            | None \<Rightarrow>
               (let error_message =
                      (if email cd \<in> existing
                       then Some (''Record for '' @ apos @ name cd @ apos @ '' failed: Email ''
                                    @ apos @ email cd @ apos @ '' already exists.'')
                       else None)
                in case (if truthy (phone cd) then phone_validator (the (phone cd)) else None) of
                     Some e \<Rightarrow>
                       (Some (''Record for '' @ apos @ name cd @ apos @ '' failed: '' @ message e),
                        customers_to_create)
                   | None \<Rightarrow>
                       (error_message,
                        if \<not> truthy error_message
                        then customers_to_create @ [(name cd, email cd, phone cd)]
                        else customers_to_create)))
         of (error_message, customers_to_create') \<Rightarrow>
           (if truthy error_message then validation_errors @ [the error_message]
            else validation_errors,
            customers_to_create')))"

text \<open>The result is the pair (\<^verbatim>\<open>customers\<close>, \<^verbatim>\<open>errors\<close>) and the state after the call.\<close>

definition BulkCreateCustomers_mutate ::
  "env \<Rightarrow> store \<Rightarrow> BulkCustomerInput list \<Rightarrow> (Customer list \<times> string list) \<times> store" where
  "BulkCreateCustomers_mutate ev s inp =
     (case fold (bulk_body ev (existing_emails s inp)) inp ([], []) of
        (validation_errors, customers_to_create) \<Rightarrow>
          if customers_to_create \<noteq> [] then
            (case bulk_create ev s customers_to_create of
               Inr (created_customers, s') \<Rightarrow> ((created_customers, validation_errors), s')
             | Inl m \<Rightarrow>
                 (([], validation_errors @ [''Database error during bulk creation: '' @ m]), s))
          else (([], validation_errors), s))"

section \<open>\<^verbatim>\<open>CreateProduct\<close>\<close>

text \<open>
  A field of an input object is left out, given as \<^verbatim>\<open>null\<close>, or given a value.
  \<^verbatim>\<open>stock = graphene.Int(required=False, default_value=0)\<close>: the default stands in for a
  field left out; \<^verbatim>\<open>null\<close> reaches the resolver as \<^verbatim>\<open>None\<close>.
\<close>

datatype 'a field = Omitted | Null | Given 'a

record ProductInput =
  pi_name :: string
  pi_price :: decimal
  pi_stock :: "int option"

text \<open>
  \<^verbatim>\<open>graphene.Int\<close> is a signed 32-bit integer: a value outside its range is refused
  before the resolver is called.
\<close>

definition int32 :: "int \<Rightarrow> bool" where
  "int32 k = (- 2147483648 \<le> k \<and> k \<le> 2147483647)"

definition ProductInput_of :: "string \<Rightarrow> decimal \<Rightarrow> int field \<Rightarrow> error + ProductInput" where
  "ProductInput_of n pr st =
     (case st of
        Omitted \<Rightarrow> Inr \<lparr>pi_name = n, pi_price = pr, pi_stock = Some 0\<rparr>
      | Null \<Rightarrow> Inr \<lparr>pi_name = n, pi_price = pr, pi_stock = None\<rparr>
      | Given k \<Rightarrow>
          if int32 k then Inr \<lparr>pi_name = n, pi_price = pr, pi_stock = Some k\<rparr>
          else Inl GraphQLError)"

text \<open>
  \<^verbatim>\<open>Product.objects.create(name=..., price=..., stock=...)\<close>: the row holds the double
  of the price, the returned instance the price as given. No validator of the model runs.
\<close>

definition Product_create ::
  "env \<Rightarrow> store \<Rightarrow> string \<Rightarrow> decimal \<Rightarrow> int \<Rightarrow> error + (decimal Product \<times> store)" where
  "Product_create ev s n pr st =
     (case (case pr of Num r \<Rightarrow> Inr (column_real ev r) | _ \<Rightarrow> save_nonfinite ev pr) of
        Inl e \<Rightarrow> Inl e
      | Inr x \<Rightarrow>
          (let k = next_pk (map p_id (products s))
           in Inr (\<lparr>p_id = k, p_name = n, p_price = pr, p_stock = st\<rparr>,
                   s\<lparr>products := products s
                        @ [\<lparr>p_id = k, p_name = n, p_price = x, p_stock = st\<rparr>]\<rparr>)))"

text \<open>\<^verbatim>\<open>stock < 0\<close> raises \<open>TypeError\<close> when \<^verbatim>\<open>stock\<close> is \<^verbatim>\<open>None\<close>.\<close>

definition CreateProduct_mutate ::
  "env \<Rightarrow> store \<Rightarrow> ProductInput \<Rightarrow> (error + decimal Product) \<times> store" where
  "CreateProduct_mutate ev s inp =
     (let price = pi_price inp; stock = pi_stock inp
      in case decimal_le_zero price of
           Inl e \<Rightarrow> (Inl e, s)
         | Inr True \<Rightarrow>
             (Inl (Exception ''Validation Error: Price must be a positive number.''), s)
         | Inr False \<Rightarrow>
             (case stock of
                None \<Rightarrow> (Inl TypeError, s)
              | Some st \<Rightarrow>
                  if st < 0
                  then (Inl (Exception ''Validation Error: Stock cannot be negative.''), s)
                  else (case Product_create ev s (pi_name inp) price st of
                          Inl e \<Rightarrow> (Inl e, s)
                        | Inr (product, s') \<Rightarrow> (Inr product, s'))))"

text \<open>The mutation as a request reaches it: the input is coerced, then the resolver runs.\<close>

definition CreateProduct ::
  "env \<Rightarrow> store \<Rightarrow> string \<Rightarrow> decimal \<Rightarrow> int field \<Rightarrow> (error + decimal Product) \<times> store" where
  "CreateProduct ev s n pr st =
     (case ProductInput_of n pr st of
        Inl e \<Rightarrow> (Inl e, s)
      | Inr inp \<Rightarrow> CreateProduct_mutate ev s inp)"

section \<open>\<^verbatim>\<open>CreateOrder\<close>\<close>

record OrderInput =
  customer_id :: string
  product_ids :: "string list"

text \<open>
  \<^verbatim>\<open>Customer.objects.get(pk=customer_id)\<close>: the key is converted with \<^verbatim>\<open>int\<close>
  (\<open>ValueError\<close> where that fails); no row is \<^verbatim>\<open>DoesNotExist\<close>, here \<open>Inr None\<close>.
\<close>

definition Customer_get :: "env \<Rightarrow> store \<Rightarrow> string \<Rightarrow> error + Customer option" where
  "Customer_get ev s pk =
     (case py_int ev pk of
        None \<Rightarrow> Inl ValueError
      | Some k \<Rightarrow>
          (case filter (\<lambda>c. c_id c = k) (customers s) of
             [] \<Rightarrow> Inr None
           | [c] \<Rightarrow> Inr (Some c)
           | _ \<Rightarrow> Inl MultipleObjectsReturned))"

text \<open>\<^verbatim>\<open>Product.objects.filter(pk__in=product_ids)\<close>, each key converted with \<^verbatim>\<open>int\<close>.\<close>

fun ints_of :: "env \<Rightarrow> string list \<Rightarrow> int list option" where
  "ints_of ev [] = Some []"
| "ints_of ev (x # xs) =
     (case py_int ev x of
        None \<Rightarrow> None
      | Some k \<Rightarrow> (case ints_of ev xs of None \<Rightarrow> None | Some ks \<Rightarrow> Some (k # ks)))"

definition Product_filter_pk_in :: "env \<Rightarrow> store \<Rightarrow> string list \<Rightarrow> error + rat Product list" where
  "Product_filter_pk_in ev s pks =
     (case ints_of ev pks of
        None \<Rightarrow> Inl ValueError
      | Some ks \<Rightarrow> Inr (filter (\<lambda>p. p_id p \<in> set ks) (products s)))"

text \<open>\<^verbatim>\<open>Order.objects.create(customer=customer)\<close>; \<^verbatim>\<open>total_amount\<close> has the default 0.00.\<close>

definition Order_create :: "env \<Rightarrow> store \<Rightarrow> Customer \<Rightarrow> Order \<times> store" where
  "Order_create ev s customer =
     (let ord = \<lparr>o_id = next_pk (map o_id (orders s)), o_customer = c_id customer,
                 o_order_date = now ev, o_total_amount = 0\<rparr>
      in (ord, s\<lparr>orders := orders s @ [ord]\<rparr>))"

text \<open>The products of an order: the join of \<open>order_products\<close> with \<open>products\<close>.\<close>

definition products_of :: "store \<Rightarrow> int \<Rightarrow> rat Product list" where
  "products_of s oid =
     concat (map (\<lambda>(i, k). if i = oid then filter (\<lambda>p. p_id p = k) (products s) else [])
                 (order_products s))"

text \<open>
  \<^verbatim>\<open>order.products.set(products)\<close>: the associations to products outside the new set go,
  and the products of the new set that are not yet associated are added.
\<close>

definition products_set :: "store \<Rightarrow> int \<Rightarrow> rat Product list \<Rightarrow> store" where
  "products_set s oid ps =
     (let keep = filter (\<lambda>(i, k). i \<noteq> oid \<or> k \<in> set (map p_id ps)) (order_products s);
          old = map snd (filter (\<lambda>(i, k). i = oid) keep);
          new = filter (\<lambda>k. k \<notin> set old) (remdups (map p_id ps))
      in s\<lparr>order_products := keep @ map (\<lambda>k. (oid, k)) new\<rparr>)"

text \<open>
  \<^verbatim>\<open>aggregate(models.Sum('price'))['price__sum']\<close>: \<^verbatim>\<open>None\<close> over no rows; otherwise
  the floating-point \<^verbatim>\<open>SUM\<close> of the database over the doubles of the price column, made
  a \<^verbatim>\<open>Decimal\<close> by the ORM.
\<close>

definition Sum_price :: "env \<Rightarrow> rat Product list \<Rightarrow> rat option" where
  "Sum_price ev ps =
     (if ps = [] then None else Some (decimal_of_real ev (sum_real ev (map p_price ps))))"

definition calculate_total :: "env \<Rightarrow> store \<Rightarrow> Order \<Rightarrow> rat" where
  "calculate_total ev s ord =
     (let total = Sum_price ev (products_of s (o_id ord))
      in case total of Some t \<Rightarrow> t | None \<Rightarrow> 0)"

text \<open>
  \<^verbatim>\<open>order.save()\<close> writes the fields of the instance to its row; the column of
  \<^verbatim>\<open>total_amount\<close> holds the double of the total.
\<close>

definition Order_save :: "env \<Rightarrow> store \<Rightarrow> Order \<Rightarrow> store" where
  "Order_save ev s ord =
     s\<lparr>orders := map (\<lambda>r. if o_id r = o_id ord
                            then ord\<lparr>o_total_amount := column_real ev (o_total_amount ord)\<rparr>
                            else r) (orders s)\<rparr>"

text \<open>
  \<^verbatim>\<open>[pid for pid in product_ids if int(pid) not in valid_ids]\<close>; \<^verbatim>\<open>int\<close> may raise.
\<close>

fun invalid_ids_of :: "env \<Rightarrow> int set \<Rightarrow> string list \<Rightarrow> error + string list" where
  "invalid_ids_of ev valid_ids [] = Inr []"
| "invalid_ids_of ev valid_ids (pid # pids) =
     (case py_int ev pid of
        None \<Rightarrow> Inl ValueError
      | Some k \<Rightarrow>
          (case invalid_ids_of ev valid_ids pids of
             Inl e \<Rightarrow> Inl e
           | Inr rest \<Rightarrow> Inr (if k \<notin> valid_ids then pid # rest else rest)))"

text \<open>The body of \<^verbatim>\<open>CreateOrder.mutate\<close>, with the state it leaves behind.\<close>

definition CreateOrder_body :: "env \<Rightarrow> store \<Rightarrow> OrderInput \<Rightarrow> (error + Order) \<times> store" where
  "CreateOrder_body ev s inp =
     (if product_ids inp = []
      then (Inl (Exception ''Validation Error: Order must contain at least one product.''), s)
      else
        (case Customer_get ev s (customer_id inp) of
           Inl e \<Rightarrow> (Inl e, s)
         | Inr None \<Rightarrow>
             (Inl (Exception (''Validation Error: Customer with ID '' @ apos @ customer_id inp
                                @ apos @ '' not found.'')), s)
         | Inr (Some customer) \<Rightarrow>
             (case Product_filter_pk_in ev s (product_ids inp) of
                Inl e \<Rightarrow> (Inl e, s)
              | Inr prods \<Rightarrow>
                  if length prods \<noteq> length (product_ids inp)
                  then
                    (let valid_ids = set (map p_id prods)
                     in case invalid_ids_of ev valid_ids (product_ids inp) of
                          Inl e \<Rightarrow> (Inl e, s)
                        | Inr invalid_ids \<Rightarrow>
                            (Inl (Exception (''Validation Error: Invalid product ID(s) found: ''
                                               @ join '', '' invalid_ids)), s))
                  else
                    (case Order_create ev s customer of
                       (ord, s1) \<Rightarrow>
                         (let s2 = products_set s1 (o_id ord) prods;
                              total_amount = calculate_total ev s2 ord;
                              ord' = ord\<lparr>o_total_amount := total_amount\<rparr>;
                              s3 = Order_save ev s2 ord'
                          in (Inr ord', s3))))))"

text \<open>
  \<^verbatim>\<open>@transaction.atomic\<close>: when the body raises, the exception passes on and the writes
  of the body are rolled back.
\<close>

definition atomic :: "(store \<Rightarrow> (error + 'a) \<times> store) \<Rightarrow> store \<Rightarrow> (error + 'a) \<times> store" where
  "atomic f s = (case f s of (Inl e, s') \<Rightarrow> (Inl e, s) | (Inr v, s') \<Rightarrow> (Inr v, s'))"

definition CreateOrder_mutate :: "env \<Rightarrow> store \<Rightarrow> OrderInput \<Rightarrow> (error + Order) \<times> store" where
  "CreateOrder_mutate ev s inp = atomic (\<lambda>s. CreateOrder_body ev s inp) s"

section \<open>\<^verbatim>\<open>PhonePatternFilter\<close> and \<^verbatim>\<open>CustomerFilter\<close>\<close>

text \<open>
  \<^verbatim>\<open>LIKE\<close> in SQLite compares the letters \<^verbatim>\<open>A\<close> to \<^verbatim>\<open>Z\<close> without regard to case and
  every other character exactly.
\<close>

definition ascii_lower :: "char \<Rightarrow> char" where
  "ascii_lower c =
     (case map_of (zip ''ABCDEFGHIJKLMNOPQRSTUVWXYZ'' ''abcdefghijklmnopqrstuvwxyz'') c of
        None \<Rightarrow> c
      | Some l \<Rightarrow> l)"

text \<open>
  \<^verbatim>\<open>queryset.filter(phone__startswith=value)\<close> keeps the rows whose phone is not
  \<^verbatim>\<open>NULL\<close> and is \<^verbatim>\<open>LIKE\<close> the value followed by anything; the wildcards of the value
  are escaped.
\<close>

definition phone_startswith :: "string \<Rightarrow> Customer list \<Rightarrow> Customer list" where
  "phone_startswith v qs =
     filter (\<lambda>c. case c_phone c of
                   None \<Rightarrow> False
                 | Some p \<Rightarrow> map ascii_lower (take (length v) p) = map ascii_lower v) qs"

text \<open>The body of the method \<^verbatim>\<open>PhonePatternFilter.filter(self, queryset, name, value)\<close>.\<close>

definition PhonePatternFilter_filter ::
  "Customer list \<Rightarrow> string \<Rightarrow> string option \<Rightarrow> Customer list" where
  "PhonePatternFilter_filter queryset field_name v =
     (if \<not> truthy v then queryset else phone_startswith (the v) queryset)"

text \<open>
  \<^verbatim>\<open>PhonePatternFilter\<close> is declared a \<^verbatim>\<open>django_filters.FilterSet\<close>, not a filter, and
  defines no constructor.
  \<^verbatim>\<open>FilterSet.__init__(self, data=None, queryset=None, *, request=None, prefix=None)\<close>
  raises \<open>TypeError\<close> on any other keyword argument.
\<close>

definition FilterSet_init :: "string list \<Rightarrow> error + unit" where
  "FilterSet_init keywords =
     (if list_all (\<lambda>k. k \<in> set [''data'', ''queryset'', ''request'', ''prefix'']) keywords
      then Inr () else Inl TypeError)"

text \<open>
  The line \<^verbatim>\<open>phone_pattern = PhonePatternFilter(field_name='phone')\<close> in the body of the
  class \<^verbatim>\<open>CustomerFilter\<close>. An exception there leaves the class undefined.
\<close>

definition CustomerFilter_class :: "error + unit" where
  "CustomerFilter_class = FilterSet_init [''field_name'']"

text \<open>
  Applying the \<^verbatim>\<open>phone_pattern\<close> filter of \<^verbatim>\<open>CustomerFilter\<close> to a queryset needs the
  class. Were the class defined, its \<^verbatim>\<open>phone_pattern\<close> would be a filter set where the
  library collects filters, and the queryset would pass as it is.
\<close>

definition CustomerFilter_phone_pattern ::
  "Customer list \<Rightarrow> string option \<Rightarrow> error + Customer list" where
  "CustomerFilter_phone_pattern queryset v =
     (case CustomerFilter_class of Inl e \<Rightarrow> Inl e | Inr u \<Rightarrow> Inr queryset)"

section \<open>A concrete environment\<close>

text \<open>
  For the evaluations at concrete inputs: an e-mail validator that rejects the strings
  without \<^verbatim>\<open>@\<close>, \<^verbatim>\<open>int\<close> on strings of decimal digits, and an empty database. The
  prices of the evaluations are binary fractions of few digits, which the database holds
  and adds exactly: on them the conversions are the identity and the sum is the sum. A
  price that is not finite is refused.
\<close>

definition sample_validate_email :: "string \<Rightarrow> ValidationError option" where
  "sample_validate_email a =
     (if CHR ''@'' \<in> set a then None
      else Some \<lparr>message = ''Enter a valid email address.'', code = Some ''invalid''\<rparr>)"

definition dec_int :: "string \<Rightarrow> int option" where
  "dec_int a =
     (if a \<noteq> [] \<and> list_all (\<lambda>c. c \<in> set ''0123456789'') a
      then Some (fold (\<lambda>c n. 10 * n + (of_char c - 48)) a 0)
      else None)"

definition sample_env :: env where
  "sample_env =
     \<lparr>validate_email = sample_validate_email, py_int = dec_int, now = 0,
      column_real = (\<lambda>r. r), save_nonfinite = (\<lambda>d. Inl ValueError),
      sum_real = sum_list, decimal_of_real = (\<lambda>x. x)\<rparr>"

definition empty_store :: store where
  "empty_store = \<lparr>customers = [], products = [], orders = [], order_products = []\<rparr>"

section \<open>Well-formed states\<close>

text \<open>
  The constraints the database keeps: the e-mail addresses of the customers are unique,
  each table has a primary key, and a row of \<open>order_products\<close> refers to an order.
\<close>

definition emails_unique :: "store \<Rightarrow> bool" where
  "emails_unique s = distinct (map c_email (customers s))"

definition keys_ok :: "store \<Rightarrow> bool" where
  "keys_ok s =
     (distinct (map c_id (customers s)) \<and> distinct (map p_id (products s))
      \<and> distinct (map o_id (orders s))
      \<and> list_all (\<lambda>(i, k). i \<in> set (map o_id (orders s))) (order_products s))"

text \<open>A record of a bulk input that passes the three checks of the loop.\<close>

definition record_ok :: "env \<Rightarrow> store \<Rightarrow> BulkCustomerInput \<Rightarrow> bool" where
  "record_ok ev s cd =
     (validate_email ev (email cd) = None
      \<and> email cd \<notin> set (map c_email (customers s))
      \<and> (if truthy (phone cd) then phone_validator (the (phone cd)) = None else True))"

text \<open>The message of the loop for a record that does not pass.\<close>

definition record_error :: "env \<Rightarrow> store \<Rightarrow> BulkCustomerInput \<Rightarrow> string" where
  "record_error ev s cd =
     ''Record for '' @ apos @ name cd @ apos @ '' failed: '' @
     (case validate_email ev (email cd) of
        Some e \<Rightarrow> message e
      | None \<Rightarrow>
          (case (if truthy (phone cd) then phone_validator (the (phone cd)) else None) of
             Some e \<Rightarrow> message e
           | None \<Rightarrow> ''Email '' @ apos @ email cd @ apos @ '' already exists.''))"

text \<open>
  The stock that a field of the input stands for where it is left out or a 32-bit integer,
  and the fields that are one or the other.
\<close>

definition stock_of :: "int field \<Rightarrow> int" where
  "stock_of st = (case st of Given k \<Rightarrow> k | _ \<Rightarrow> 0)"

definition stock_given :: "int field \<Rightarrow> bool" where
  "stock_given st = (case st of Omitted \<Rightarrow> True | Null \<Rightarrow> False | Given k \<Rightarrow> int32 k)"

text \<open>Sample rows and states for the evaluations.\<close>

definition ann :: Customer where
  "ann = \<lparr>c_id = 1, c_name = ''Ann'', c_email = ''ann@x.org'', c_phone = None, c_created_at = 0\<rparr>"

definition ann_store :: store where
  "ann_store = empty_store\<lparr>customers := [ann]\<rparr>"

definition ann_in :: CustomerInput where
  "ann_in = \<lparr>name = ''Ann'', email = ''ann@x.org'', phone = None\<rparr>"

definition bob_in :: CustomerInput where
  "bob_in = \<lparr>name = ''Bob'', email = ''ann@x.org'', phone = None\<rparr>"

definition cy_in :: CustomerInput where
  "cy_in = \<lparr>name = ''Cy'', email = ''cy@x.org'', phone = None\<rparr>"

definition pen :: "rat Product" where
  "pen = \<lparr>p_id = 1, p_name = ''pen'', p_price = 3 / 2, p_stock = 5\<rparr>"

definition ink :: "rat Product" where
  "ink = \<lparr>p_id = 2, p_name = ''ink'', p_price = 5 / 2, p_stock = 0\<rparr>"

definition shop_store :: store where
  "shop_store = \<lparr>customers = [ann], products = [pen, ink], orders = [], order_products = []\<rparr>"

text \<open>The definitions unfolded by the evaluations.\<close>

lemmas sample_defs = sample_env_def sample_validate_email_def dec_int_def empty_store_def
  ann_def ann_store_def ann_in_def bob_in_def cy_in_def pen_def ink_def shop_store_def

lemmas phone_defs = phone_validator_def search_anchored_def phone_regex_def rep_def
  digit_def sep_opt_def numeral_nat truthy_def

lemmas bulk_defs = BulkCreateCustomers_mutate_def existing_emails_def bulk_body_def
  insert_customer_def next_pk_def Let_def unique_violation_def

lemmas order_defs = CreateOrder_mutate_def atomic_def CreateOrder_body_def Customer_get_def
  Product_filter_pk_in_def Order_create_def products_set_def calculate_total_def
  products_of_def Sum_price_def Order_save_def next_pk_def Let_def

section \<open>Keys and the customer table\<close>

lemma fold_max_ge: "(a::int) \<le> fold max ks a"
  by (induction ks arbitrary: a) (auto intro: order_trans [OF max.cobounded2])

lemma fold_max_mem: "k \<in> set ks \<Longrightarrow> (k::int) \<le> fold max ks a"
proof (induction ks arbitrary: a)
  case Nil then show ?case by simp
next
  case (Cons x xs)
  show ?case
  proof (cases "k = x")
    case True
    have "x \<le> max x a" by simp
    also have "\<dots> \<le> fold max xs (max x a)" by (rule fold_max_ge)
    finally show ?thesis using True by simp
  next
    case False
    with Cons show ?thesis by simp
  qed
qed

lemma next_pk_fresh: "next_pk ks \<notin> set ks"
proof
  assume "next_pk ks \<in> set ks"
  then have "next_pk ks \<le> fold max ks 0" by (rule fold_max_mem)
  then show False by (simp add: next_pk_def)
qed

lemma CreateCustomer_try_Validation_unchanged:
  "fst (CreateCustomer_try ev s inp) = Inl e \<Longrightarrow> snd (CreateCustomer_try ev s inp) = s"
  by (auto simp: CreateCustomer_try_def split: option.splits if_splits sum.splits prod.splits)

lemma CreateCustomer_mutate_raises:
  "fst (CreateCustomer_try ev s inp) = Inl e \<Longrightarrow>
   CreateCustomer_mutate ev s inp = (Inl (CreateCustomer_except (email inp) e), s)"
  using CreateCustomer_try_Validation_unchanged [of ev s inp e]
  by (cases "CreateCustomer_try ev s inp") (simp add: CreateCustomer_mutate_def)

lemma CreateCustomer_try_duplicate:
  "email inp \<in> set (map c_email (customers s)) \<Longrightarrow>
   \<exists>e. fst (CreateCustomer_try ev s inp) = Inl (Validation e)"
  by (auto simp: CreateCustomer_try_def split: option.splits)

lemma CreateCustomer_try_invalid:
  "validate_email ev (email inp) \<noteq> None \<or> (truthy (phone inp) \<and> phone_validator (the (phone inp)) \<noteq> None) \<Longrightarrow>
   \<exists>e. fst (CreateCustomer_try ev s inp) = Inl (Validation e)"
  by (auto simp: CreateCustomer_try_def split: option.splits)

lemma CreateCustomer_except_Validation:
  "CreateCustomer_except a (Validation e) = AttributeError ''code_list''"
  by (simp add: code_list_def)

lemma CreateCustomer_try_fresh:
  assumes "validate_email ev (email inp) = None"
    and "truthy (phone inp) \<Longrightarrow> phone_validator (the (phone inp)) = None"
    and "email inp \<notin> set (map c_email (customers s))"
  shows "CreateCustomer_try ev s inp =
     (let c = \<lparr>c_id = next_pk (map c_id (customers s)), c_name = name inp, c_email = email inp,
                   c_phone = phone inp, c_created_at = now ev\<rparr> in
      (Inr (c, ''Customer '' @ apos @ name inp @ apos @ '' created successfully.''),
       s\<lparr>customers := customers s @ [c]\<rparr>))"
  using assms
  by (auto simp: CreateCustomer_try_def Customer_create_def insert_customer_def Let_def split: option.splits)

lemma CreateCustomer_mutate_fresh:
  assumes "validate_email ev (email inp) = None"
    and "truthy (phone inp) \<Longrightarrow> phone_validator (the (phone inp)) = None"
    and "email inp \<notin> set (map c_email (customers s))"
  shows "CreateCustomer_mutate ev s inp =
     (let c = \<lparr>c_id = next_pk (map c_id (customers s)), c_name = name inp, c_email = email inp,
                   c_phone = phone inp, c_created_at = now ev\<rparr> in
      (Inr (c, ''Customer '' @ apos @ name inp @ apos @ '' created successfully.''),
       s\<lparr>customers := customers s @ [c]\<rparr>))"
  using CreateCustomer_try_fresh [OF assms]
  by (simp add: CreateCustomer_mutate_def Let_def)

section \<open>Claim C4: duplicate e-mail detection in \<^verbatim>\<open>CreateCustomer\<close>\<close>

text \<open>
  Claim C4. For every input whose e-mail is that of a stored customer, \<^verbatim>\<open>CreateCustomer\<close>
  is to raise an error with the message
  \<^verbatim>\<open>Validation Error: Email '<email>' already exists.\<close> and create nothing. The code
  creates nothing, but the error it raises is another one: each \<open>ValidationError\<close> of the
  \<^verbatim>\<open>try\<close> block reaches the handler, whose first step reads \<^verbatim>\<open>e.code_list\<close>, and
  that raises \<open>AttributeError\<close>. So for every input with a stored e-mail the mutation
  raises \<open>AttributeError\<close> and leaves the state as it was.
\<close>

theorem CreateCustomer_duplicate_raises_AttributeError:
  "email inp \<in> set (map c_email (customers s)) \<Longrightarrow>
   CreateCustomer_mutate ev s inp = (Inl (AttributeError ''code_list''), s)"
proof -
  assume "email inp \<in> set (map c_email (customers s))"
  then obtain e where "fst (CreateCustomer_try ev s inp) = Inl (Validation e)"
    using CreateCustomer_try_duplicate by blast
  then show ?thesis
    using CreateCustomer_mutate_raises [of ev s inp "Validation e"]
    by (simp add: code_list_def)
qed

text \<open>
  At a concrete input: Ann is stored, and Bob asks for her address. The error is not the
  exception with the message of the claim.
\<close>

theorem CreateCustomer_duplicate_raises_AttributeError_witness:
  "email \<lparr>name = ''Bob'', email = ''ann@x.org'', phone = None\<rparr> \<in> set (map c_email (customers ann_store))
   \<and> CreateCustomer_mutate sample_env ann_store \<lparr>name = ''Bob'', email = ''ann@x.org'', phone = None\<rparr>
       = (Inl (AttributeError ''code_list''), ann_store)
   \<and> AttributeError ''code_list'' \<noteq> Exception (''Validation Error: Email '' @ apos @ ''ann@x.org'' @ apos @ '' already exists.'')"
proof -
  have h: "email \<lparr>name = ''Bob'', email = ''ann@x.org'', phone = None\<rparr> \<in> set (map c_email (customers ann_store))"
    by (simp add: ann_store_def ann_def)
  show ?thesis
    using h CreateCustomer_duplicate_raises_AttributeError [OF h, of sample_env] by simp
qed

section \<open>Claim C5: format validation in \<^verbatim>\<open>CreateCustomer\<close>\<close>

text \<open>
  Claim C5, as amended. For every input whose e-mail the validator rejects, and for every
  input whose phone is a non-empty string that does not match the phone pattern, the
  mutation raises an error and the state is unchanged, so no customer is created. An input
  whose phone is absent or empty, with a valid e-mail that no stored customer has,
  succeeds without any phone check: the customer is created with the given name, e-mail
  and phone and returned with the success message.
\<close>

theorem CreateCustomer_format_validation:
  "((validate_email ev (email inp) \<noteq> None
       \<or> (truthy (phone inp) \<and> phone_validator (the (phone inp)) \<noteq> None))
      \<longrightarrow> (\<exists>e. fst (CreateCustomer_mutate ev s inp) = Inl e)
          \<and> snd (CreateCustomer_mutate ev s inp) = s)
   \<and> (\<not> truthy (phone inp) \<and> validate_email ev (email inp) = None
        \<and> email inp \<notin> set (map c_email (customers s))
      \<longrightarrow> (\<exists>c. CreateCustomer_mutate ev s inp
                  = (Inr (c, ''Customer '' @ apos @ name inp @ apos @ '' created successfully.''),
                     s\<lparr>customers := customers s @ [c]\<rparr>)
               \<and> c_name c = name inp \<and> c_email c = email inp \<and> c_phone c = phone inp))"
proof (intro conjI impI)
  assume bad: "validate_email ev (email inp) \<noteq> None
       \<or> (truthy (phone inp) \<and> phone_validator (the (phone inp)) \<noteq> None)"
  then obtain e where e: "fst (CreateCustomer_try ev s inp) = Inl (Validation e)"
    using CreateCustomer_try_invalid by blast
  from CreateCustomer_mutate_raises [OF e]
  show "\<exists>e. fst (CreateCustomer_mutate ev s inp) = Inl e" 
    and "snd (CreateCustomer_mutate ev s inp) = s" by simp_all
next
  assume ok: "\<not> truthy (phone inp) \<and> validate_email ev (email inp) = None
        \<and> email inp \<notin> set (map c_email (customers s))"
  then show "\<exists>c. CreateCustomer_mutate ev s inp
                  = (Inr (c, ''Customer '' @ apos @ name inp @ apos @ '' created successfully.''),
                     s\<lparr>customers := customers s @ [c]\<rparr>)
               \<and> c_name c = name inp \<and> c_email c = email inp \<and> c_phone c = phone inp"
    using CreateCustomer_mutate_fresh [of ev inp s] by (simp add: Let_def)
qed

text \<open>
  At concrete inputs: the phone \<^verbatim>\<open>12\<close> is rejected and nothing is stored; without a
  phone, Ann is created.
\<close>

theorem CreateCustomer_format_validation_witness:
  "(truthy (phone \<lparr>name = ''Ann'', email = ''ann@x.org'', phone = Some ''12''\<rparr>)
     \<and> phone_validator (the (phone \<lparr>name = ''Ann'', email = ''ann@x.org'', phone = Some ''12''\<rparr>)) \<noteq> None)
   \<and> snd (CreateCustomer_mutate sample_env empty_store
            \<lparr>name = ''Ann'', email = ''ann@x.org'', phone = Some ''12''\<rparr>) = empty_store
   \<and> (\<not> truthy (phone \<lparr>name = ''Ann'', email = ''ann@x.org'', phone = None\<rparr>)
        \<and> validate_email sample_env (email \<lparr>name = ''Ann'', email = ''ann@x.org'', phone = None\<rparr>) = None
        \<and> email \<lparr>name = ''Ann'', email = ''ann@x.org'', phone = None\<rparr>
             \<notin> set (map c_email (customers empty_store)))
   \<and> CreateCustomer_mutate sample_env empty_store \<lparr>name = ''Ann'', email = ''ann@x.org'', phone = None\<rparr>
       = (Inr (ann, ''Customer '' @ apos @ ''Ann'' @ apos @ '' created successfully.''), ann_store)"
proof -
  let ?bad = "\<lparr>name = ''Ann'', email = ''ann@x.org'', phone = Some ''12''\<rparr>"
  let ?good = "\<lparr>name = ''Ann'', email = ''ann@x.org'', phone = None\<rparr>"
  have h1: "truthy (phone ?bad) \<and> phone_validator (the (phone ?bad)) \<noteq> None"
    by (simp add: truthy_def phone_validator_def search_anchored_def phone_regex_def rep_def
                  digit_def sep_opt_def numeral_nat)
  have h2: "\<not> truthy (phone ?good) \<and> validate_email sample_env (email ?good) = None
        \<and> email ?good \<notin> set (map c_email (customers empty_store))"
    by (simp add: truthy_def sample_env_def sample_validate_email_def empty_store_def)
  from h1 CreateCustomer_format_validation [of sample_env ?bad empty_store]
  have c1: "snd (CreateCustomer_mutate sample_env empty_store ?bad) = empty_store" by blast
  from h2 CreateCustomer_format_validation [of sample_env ?good empty_store]
  obtain c where c: "CreateCustomer_mutate sample_env empty_store ?good
      = (Inr (c, ''Customer '' @ apos @ name ?good @ apos @ '' created successfully.''),
         empty_store\<lparr>customers := customers empty_store @ [c]\<rparr>)"
    by blast
  have "CreateCustomer_mutate sample_env empty_store ?good
       = (Inr (ann, ''Customer '' @ apos @ ''Ann'' @ apos @ '' created successfully.''), ann_store)"
    by (simp add: CreateCustomer_mutate_def CreateCustomer_try_def sample_env_def
         empty_store_def sample_validate_email_def truthy_def Customer_create_def
         insert_customer_def next_pk_def Let_def ann_def ann_store_def)
  with h1 h2 c1 show ?thesis by blast
qed

text \<open>
  Claim C5 as stated fails for a phone that is given and empty: the empty string does not
  match the pattern, yet \<^verbatim>\<open>if phone:\<close> skips the validator and the customer is created.
\<close>

theorem CreateCustomer_empty_phone_counterexample:
  "phone_validator [] \<noteq> None
   \<and> CreateCustomer_mutate sample_env empty_store \<lparr>name = ''Ann'', email = ''ann@x.org'', phone = Some []\<rparr>
      = (Inr (ann\<lparr>c_phone := Some []\<rparr>, ''Customer '' @ apos @ ''Ann'' @ apos @ '' created successfully.''),
         empty_store\<lparr>customers := [ann\<lparr>c_phone := Some []\<rparr>]\<rparr>)"
  by (simp add: CreateCustomer_mutate_def CreateCustomer_try_def sample_env_def
         empty_store_def sample_validate_email_def truthy_def Customer_create_def
         insert_customer_def next_pk_def Let_def ann_def phone_validator_def search_anchored_def phone_regex_def rep_def
                  digit_def sep_opt_def numeral_nat)

lemma CreateProduct_finite:
  assumes "stock_given st"
  shows "CreateProduct ev s n (Num r) st =
     (if r \<le> 0
      then (Inl (Exception ''Validation Error: Price must be a positive number.''), s)
      else if stock_of st < 0
      then (Inl (Exception ''Validation Error: Stock cannot be negative.''), s)
      else (Inr \<lparr>p_id = next_pk (map p_id (products s)), p_name = n, p_price = Num r,
                 p_stock = stock_of st\<rparr>,
            s\<lparr>products := products s
                 @ [\<lparr>p_id = next_pk (map p_id (products s)), p_name = n,
                      p_price = column_real ev r, p_stock = stock_of st\<rparr>]\<rparr>))"
  using assms
  by (cases st)
     (simp_all add: CreateProduct_def ProductInput_of_def CreateProduct_mutate_def
        decimal_le_zero_def Product_create_def stock_given_def stock_of_def Let_def)

section \<open>Claim C10: validation in \<^verbatim>\<open>CreateProduct\<close>\<close>

text \<open>
  Claim C10, as amended. For every input whose price is a finite decimal and whose stock
  is left out or given as an integer of 32 bits, \<^verbatim>\<open>CreateProduct\<close> raises a validation
  error if and only if the price is at most zero or the stock is negative, and then the
  state is unchanged; otherwise it creates and returns a product with exactly the given
  name, price and stock, the stock being 0 when it was left out, and the new row holds
  the name, the stock and the double of the price. No check other than the resolver's
  stands between the input and the table.
\<close>

theorem CreateProduct_validation:
  assumes "stock_given st"
  shows "((\<exists>m. fst (CreateProduct ev s n (Num r) st) = Inl (Exception m))
            \<longleftrightarrow> r \<le> 0 \<or> stock_of st < 0)
       \<and> (r \<le> 0 \<or> stock_of st < 0 \<longrightarrow> snd (CreateProduct ev s n (Num r) st) = s)
       \<and> (\<not> (r \<le> 0 \<or> stock_of st < 0) \<longrightarrow>
            (\<exists>p row. CreateProduct ev s n (Num r) st
                        = (Inr p, s\<lparr>products := products s @ [row]\<rparr>)
               \<and> p_name p = n \<and> p_price p = Num r \<and> p_stock p = stock_of st
               \<and> p_id row = p_id p \<and> p_name row = n \<and> p_price row = column_real ev r
               \<and> p_stock row = stock_of st))"
proof (intro conjI impI)
  show "(\<exists>m. fst (CreateProduct ev s n (Num r) st) = Inl (Exception m))
          \<longleftrightarrow> r \<le> 0 \<or> stock_of st < 0"
    by (auto simp: CreateProduct_finite [OF assms])
next
  assume "r \<le> 0 \<or> stock_of st < 0"
  then show "snd (CreateProduct ev s n (Num r) st) = s"
    by (auto simp: CreateProduct_finite [OF assms])
next
  let ?k = "next_pk (map p_id (products s))"
  let ?p = "\<lparr>p_id = ?k, p_name = n, p_price = Num r, p_stock = stock_of st\<rparr>"
  let ?row = "\<lparr>p_id = ?k, p_name = n, p_price = column_real ev r, p_stock = stock_of st\<rparr>"
  assume "\<not> (r \<le> 0 \<or> stock_of st < 0)"
  then have "CreateProduct ev s n (Num r) st = (Inr ?p, s\<lparr>products := products s @ [?row]\<rparr>)"
    by (simp add: CreateProduct_finite [OF assms])
  then show "\<exists>p row. CreateProduct ev s n (Num r) st
                        = (Inr p, s\<lparr>products := products s @ [row]\<rparr>)
               \<and> p_name p = n \<and> p_price p = Num r \<and> p_stock p = stock_of st
               \<and> p_id row = p_id p \<and> p_name row = n \<and> p_price row = column_real ev r
               \<and> p_stock row = stock_of st"
    by (intro exI [of _ ?p] exI [of _ ?row]) simp
qed

text \<open>
  Claim C10 as stated fails in two ways. A stock given as \<^verbatim>\<open>null\<close> with a positive
  price: the comparison \<^verbatim>\<open>stock < 0\<close> raises \<open>TypeError\<close>. A price that is a NaN, with
  any stock: the comparison \<^verbatim>\<open>price <= 0\<close> raises \<open>InvalidOperation\<close>. Neither is a
  validation error, and neither creates a product.
\<close>

theorem CreateProduct_null_stock_counterexample:
  "CreateProduct sample_env empty_store ''pen'' (Num 1) Null = (Inl TypeError, empty_store)
   \<and> CreateProduct sample_env empty_store ''pen'' NaN (Given 5)
       = (Inl InvalidOperation, empty_store)"
  by (simp add: CreateProduct_def ProductInput_of_def CreateProduct_mutate_def
        decimal_le_zero_def int32_def)

text \<open>
  At concrete inputs: a pen at 3/2 with stock 5 is created; with the stock left out it is
  created with stock 0; with stock -1 the validation error is raised; and a pen at 1/128,
  below the 0.01 of the \<^verbatim>\<open>MinValueValidator\<close> declared on \<^verbatim>\<open>Product.price\<close>, is created.
\<close>

theorem CreateProduct_validation_witness:
  "stock_given (Given 5) \<and> stock_given Omitted \<and> stock_given (Given (- 1))
   \<and> CreateProduct sample_env empty_store ''pen'' (Num (3 / 2)) (Given 5)
       = (Inr \<lparr>p_id = 1, p_name = ''pen'', p_price = Num (3 / 2), p_stock = 5\<rparr>,
          empty_store\<lparr>products := [\<lparr>p_id = 1, p_name = ''pen'', p_price = 3 / 2, p_stock = 5\<rparr>]\<rparr>)
   \<and> (\<exists>p. fst (CreateProduct sample_env empty_store ''pen'' (Num (3 / 2)) Omitted) = Inr p
            \<and> p_stock p = 0)
   \<and> (\<exists>m. fst (CreateProduct sample_env empty_store ''pen'' (Num (3 / 2)) (Given (- 1)))
             = Inl (Exception m))
   \<and> (\<exists>p. fst (CreateProduct sample_env empty_store ''pen'' (Num (1 / 128)) (Given 5)) = Inr p
            \<and> p_price p = Num (1 / 128))"
proof -
  have a: "stock_given (Given 5)" and b: "stock_given Omitted"
    and c: "stock_given (Given (- 1))"
    by (simp_all add: stock_given_def int32_def)
  have 1: "CreateProduct sample_env empty_store ''pen'' (Num (3 / 2)) (Given 5)
       = (Inr \<lparr>p_id = 1, p_name = ''pen'', p_price = Num (3 / 2), p_stock = 5\<rparr>,
          empty_store\<lparr>products := [\<lparr>p_id = 1, p_name = ''pen'', p_price = 3 / 2, p_stock = 5\<rparr>]\<rparr>)"
    using CreateProduct_validation [OF a, of sample_env empty_store "''pen''" "3 / 2"]
    by (auto simp: stock_of_def empty_store_def next_pk_def sample_env_def
          CreateProduct_finite [OF a] Let_def)
  have 2: "\<exists>p. fst (CreateProduct sample_env empty_store ''pen'' (Num (3 / 2)) Omitted) = Inr p
            \<and> p_stock p = 0"
    using CreateProduct_validation [OF b, of sample_env empty_store "''pen''" "3 / 2"]
    by (auto simp: stock_of_def)
  have 3: "\<exists>m. fst (CreateProduct sample_env empty_store ''pen'' (Num (3 / 2)) (Given (- 1)))
             = Inl (Exception m)"
    using CreateProduct_validation [OF c, of sample_env empty_store "''pen''" "3 / 2"]
    by (simp add: stock_of_def)
  have 4: "\<exists>p. fst (CreateProduct sample_env empty_store ''pen'' (Num (1 / 128)) (Given 5)) = Inr p
            \<and> p_price p = Num (1 / 128)"
    using CreateProduct_validation [OF a, of sample_env empty_store "''pen''" "1 / 128"]
    by (auto simp: stock_of_def)
  from a b c 1 2 3 4 show ?thesis by (intro conjI)
qed

section \<open>Claim C7: the phone pattern filter\<close>

text \<open>
  Claim C7. Applying the \<^verbatim>\<open>phone_pattern\<close> filter of \<^verbatim>\<open>CustomerFilter\<close> with a non-empty
  value is to return exactly the customers whose phone starts with the value, case
  mattering, and with an empty value the queryset unchanged. The code does not get there:
  \<^verbatim>\<open>PhonePatternFilter\<close> is declared a filter set, so its instantiation with
  \<^verbatim>\<open>field_name\<close> in the body of \<^verbatim>\<open>CustomerFilter\<close> raises \<open>TypeError\<close>, the class is
  never defined, and the filter cannot be applied to any queryset with any value.
\<close>

theorem CustomerFilter_phone_pattern_raises:
  "CustomerFilter_phone_pattern queryset v = Inl TypeError"
  by (simp add: CustomerFilter_phone_pattern_def CustomerFilter_class_def FilterSet_init_def)

text \<open>At a concrete queryset and value.\<close>

theorem CustomerFilter_phone_pattern_raises_witness:
  "CustomerFilter_phone_pattern [ann\<lparr>c_phone := Some ''+1555''\<rparr>] (Some ''+1'') = Inl TypeError"
  using CustomerFilter_phone_pattern_raises [of "[ann\<lparr>c_phone := Some ''+1555''\<rparr>]" "Some ''+1''"]
  by simp

text \<open>
  The body of the method, called on its own, does not tell \<^verbatim>\<open>AB\<close> from \<^verbatim>\<open>ab\<close>: the
  lookup is a \<^verbatim>\<open>LIKE\<close> of the database.
\<close>

lemma PhonePatternFilter_filter_ignores_case:
  "PhonePatternFilter_filter [ann\<lparr>c_phone := Some ''abc''\<rparr>] ''phone'' (Some ''AB'')
     = [ann\<lparr>c_phone := Some ''abc''\<rparr>]"
  by (simp add: PhonePatternFilter_filter_def phone_startswith_def truthy_def ascii_lower_def)

lemma PhonePatternFilter_filter_empty:
  "v = None \<or> v = Some [] \<Longrightarrow> PhonePatternFilter_filter qs fname v = qs"
  by (auto simp: PhonePatternFilter_filter_def truthy_def)

section \<open>The loop and the insert of \<^verbatim>\<open>BulkCreateCustomers\<close>\<close>

lemma in_existing_emails:
  "cd \<in> set inp \<Longrightarrow>
   (email cd \<in> existing_emails s inp) = (email cd \<in> set (map c_email (customers s)))"
  by (auto simp: existing_emails_def Let_def)

lemma bulk_body_step:
  assumes "(email cd \<in> ex) = (email cd \<in> set (map c_email (customers s)))"
  shows "bulk_body ev ex cd (errs, batch) =
     (if record_ok ev s cd then (errs, batch @ [(name cd, email cd, phone cd)])
      else (errs @ [record_error ev s cd], batch))"
  using assms
  by (auto simp: bulk_body_def record_ok_def record_error_def truthy_def Let_def
           split: option.splits)

lemma fold_bulk_body:
  assumes "\<forall>cd \<in> set xs. (email cd \<in> ex) = (email cd \<in> set (map c_email (customers s)))"
  shows "fold (bulk_body ev ex) xs (errs, batch) =
     (errs @ map (record_error ev s) (filter (\<lambda>cd. \<not> record_ok ev s cd) xs),
      batch @ map (\<lambda>cd. (name cd, email cd, phone cd)) (filter (record_ok ev s) xs))"
  using assms
proof (induction xs arbitrary: errs batch)
  case Nil
  then show ?case by simp
next
  case (Cons x xs)
  then have x: "(email x \<in> ex) = (email x \<in> set (map c_email (customers s)))" by simp
  from Cons have rest: "\<forall>cd \<in> set xs. (email cd \<in> ex) = (email cd \<in> set (map c_email (customers s)))"
    by simp
  show ?case
    by (simp add: bulk_body_step [OF x] Cons.IH [OF rest])
qed

lemma insert_customer_Inr:
  "insert_customer ev s (n, e, p) = Inr (c, s') \<longleftrightarrow>
     e \<notin> set (map c_email (customers s))
     \<and> c = \<lparr>c_id = next_pk (map c_id (customers s)), c_name = n, c_email = e,
                   c_phone = p, c_created_at = now ev\<rparr>
     \<and> s' = s\<lparr>customers := customers s @ [c]\<rparr>"
  by (auto simp: insert_customer_def Let_def)

lemma insert_customer_Inl:
  "insert_customer ev s (n, e, p) = Inl m \<longleftrightarrow>
     e \<in> set (map c_email (customers s)) \<and> m = unique_violation"
  by (auto simp: insert_customer_def Let_def)

lemma bulk_create_Cons:
  "bulk_create ev s ((n, e, p) # rs) =
     (if e \<in> set (map c_email (customers s)) then Inl unique_violation
      else
        (case bulk_create ev (s\<lparr>customers := customers s @
                 [\<lparr>c_id = next_pk (map c_id (customers s)), c_name = n, c_email = e,
                   c_phone = p, c_created_at = now ev\<rparr>]\<rparr>) rs of
           Inl m \<Rightarrow> Inl m
         | Inr (cs, s'') \<Rightarrow>
             Inr (\<lparr>c_id = next_pk (map c_id (customers s)), c_name = n, c_email = e,
                   c_phone = p, c_created_at = now ev\<rparr> # cs, s'')))"
  by (simp add: insert_customer_def Let_def)

lemma bulk_create_ok:
  assumes "distinct (map (\<lambda>r. fst (snd r)) rs)"
    and "set (map (\<lambda>r. fst (snd r)) rs) \<inter> set (map c_email (customers s)) = {}"
  shows "\<exists>cs. bulk_create ev s rs = Inr (cs, s\<lparr>customers := customers s @ cs\<rparr>)
           \<and> map (\<lambda>c. (c_name c, c_email c, c_phone c)) cs = rs"
  using assms
proof (induction rs arbitrary: s)
  case Nil
  then show ?case by simp
next
  case (Cons r rs)
  obtain n e p where r: "r = (n, e, p)" by (cases r)
  let ?c = "\<lparr>c_id = next_pk (map c_id (customers s)), c_name = n, c_email = e,
                   c_phone = p, c_created_at = now ev\<rparr>"
  let ?s = "s\<lparr>customers := customers s @ [?c]\<rparr>"
  from Cons.prems r have fresh: "e \<notin> set (map c_email (customers s))" by auto
  from Cons.prems r have d: "distinct (map (\<lambda>r. fst (snd r)) rs)" by simp
  from Cons.prems r
  have "set (map (\<lambda>r. fst (snd r)) rs) \<inter> set (map c_email (customers ?s)) = {}"
    by auto
  from Cons.IH [OF d this] obtain cs where
    cs: "bulk_create ev ?s rs = Inr (cs, ?s\<lparr>customers := customers ?s @ cs\<rparr>)"
    and m: "map (\<lambda>c. (c_name c, c_email c, c_phone c)) cs = rs" by blast
  have "bulk_create ev s (r # rs) = Inr (?c # cs, s\<lparr>customers := customers s @ ?c # cs\<rparr>)"
    using fresh cs by (simp add: r bulk_create_Cons del: bulk_create.simps)
  moreover have "map (\<lambda>c. (c_name c, c_email c, c_phone c)) (?c # cs) = r # rs"
    by (simp add: m r)
  ultimately show ?case by (intro exI [of _ "?c # cs"] conjI)
qed

lemma bulk_create_fail:
  assumes "\<not> (distinct (map (\<lambda>r. fst (snd r)) rs)
             \<and> set (map (\<lambda>r. fst (snd r)) rs) \<inter> set (map c_email (customers s)) = {})"
  shows "bulk_create ev s rs = Inl unique_violation"
  using assms
proof (induction rs arbitrary: s)
  case Nil
  then show ?case by simp
next
  case (Cons r rs)
  obtain n e p where r: "r = (n, e, p)" by (cases r)
  let ?c = "\<lparr>c_id = next_pk (map c_id (customers s)), c_name = n, c_email = e,
                   c_phone = p, c_created_at = now ev\<rparr>"
  let ?s = "s\<lparr>customers := customers s @ [?c]\<rparr>"
  show ?case
  proof (cases "e \<in> set (map c_email (customers s))")
    case True
    then show ?thesis by (simp add: r bulk_create_Cons del: bulk_create.simps)
  next
    case False
    with Cons.prems r
    have "\<not> (distinct (map (\<lambda>r. fst (snd r)) rs)
             \<and> set (map (\<lambda>r. fst (snd r)) rs) \<inter> set (map c_email (customers ?s)) = {})"
      by auto
    from Cons.IH [OF this] False show ?thesis
      by (simp add: r bulk_create_Cons del: bulk_create.simps)
  qed
qed

lemma BulkCreateCustomers_fold:
  "fold (bulk_body ev (existing_emails s inp)) inp ([], []) =
     (map (record_error ev s) (filter (\<lambda>cd. \<not> record_ok ev s cd) inp),
      map (\<lambda>cd. (name cd, email cd, phone cd)) (filter (record_ok ev s) inp))"
proof -
  have "\<forall>cd \<in> set inp. (email cd \<in> existing_emails s inp)
          = (email cd \<in> set (map c_email (customers s)))"
    by (simp add: in_existing_emails)
  from fold_bulk_body [OF this, of ev "[]" "[]"] show ?thesis by simp
qed

lemma batch_emails:
  "map (\<lambda>r. fst (snd r)) (map (\<lambda>cd. (name cd, email cd, phone cd)) xs) = map email xs"
  by simp

lemma batch_fresh:
  "set (map email (filter (record_ok ev s) inp)) \<inter> set (map c_email (customers s)) = {}"
  by (auto simp: record_ok_def)

section \<open>Claim C1: partial success of \<^verbatim>\<open>BulkCreateCustomers\<close>\<close>

text \<open>
  Claim C1, as amended. For every input list in which the records that pass the checks
  of the loop have pairwise different e-mails: every record whose e-mail the validator
  accepts, whose e-mail no stored customer has, and whose phone is absent, empty or
  matches the phone pattern is created and returned in the customers list, in the order of
  the input and with its name, e-mail and phone; every other record contributes exactly
  one message to the errors list; and the state gains exactly the returned customers. So
  the failure of some records does not prevent the creation of the others.
\<close>

theorem BulkCreateCustomers_partial_success:
  assumes "distinct (map email (filter (record_ok ev s) inp))"
  shows "\<exists>cs. BulkCreateCustomers_mutate ev s inp
              = ((cs, map (record_error ev s) (filter (\<lambda>cd. \<not> record_ok ev s cd) inp)),
                 s\<lparr>customers := customers s @ cs\<rparr>)
          \<and> map (\<lambda>c. (c_name c, c_email c, c_phone c)) cs
              = map (\<lambda>cd. (name cd, email cd, phone cd)) (filter (record_ok ev s) inp)"
proof -
  let ?batch = "map (\<lambda>cd. (name cd, email cd, phone cd)) (filter (record_ok ev s) inp)"
  let ?errs = "map (record_error ev s) (filter (\<lambda>cd. \<not> record_ok ev s cd) inp)"
  have d: "distinct (map (\<lambda>r. fst (snd r)) ?batch)"
    using assms by (simp only: batch_emails)
  have f: "set (map (\<lambda>r. fst (snd r)) ?batch) \<inter> set (map c_email (customers s)) = {}"
    by (simp only: batch_emails batch_fresh)
  from bulk_create_ok [OF d f, of ev] obtain cs where
    cs: "bulk_create ev s ?batch = Inr (cs, s\<lparr>customers := customers s @ cs\<rparr>)"
    and m: "map (\<lambda>c. (c_name c, c_email c, c_phone c)) cs = ?batch" by blast
  have "BulkCreateCustomers_mutate ev s inp = ((cs, ?errs), s\<lparr>customers := customers s @ cs\<rparr>)"
  proof (cases "?batch = []")
    case True
    with m have "cs = []" by simp
    with True show ?thesis
      by (simp add: BulkCreateCustomers_mutate_def BulkCreateCustomers_fold)
  next
    case False
    then show ?thesis
      by (simp add: BulkCreateCustomers_mutate_def BulkCreateCustomers_fold cs)
  qed
  with m show ?thesis by (intro exI [of _ cs] conjI)
qed

lemma record_ok_samples:
  "record_ok sample_env empty_store ann_in" "record_ok sample_env empty_store bob_in"
  "record_ok sample_env empty_store cy_in"
  by (simp_all add: record_ok_def sample_defs truthy_def)

text \<open>
  At a concrete input: Ann and Cy are created although Bob's address is rejected, and
  Bob contributes one message.
\<close>

theorem BulkCreateCustomers_partial_success_witness:
  "distinct (map email (filter (record_ok sample_env empty_store)
       [ann_in, \<lparr>name = ''Bob'', email = ''bob'', phone = None\<rparr>, cy_in]))
   \<and> (\<exists>cs. BulkCreateCustomers_mutate sample_env empty_store
               [ann_in, \<lparr>name = ''Bob'', email = ''bob'', phone = None\<rparr>, cy_in]
             = ((cs, [''Record for '' @ apos @ ''Bob'' @ apos @ '' failed: Enter a valid email address.'']),
                empty_store\<lparr>customers := customers empty_store @ cs\<rparr>)
           \<and> map (\<lambda>c. (c_name c, c_email c, c_phone c)) cs
               = [(''Ann'', ''ann@x.org'', None), (''Cy'', ''cy@x.org'', None)])"
proof -
  let ?inp = "[ann_in, \<lparr>name = ''Bob'', email = ''bob'', phone = None\<rparr>, cy_in]"
  have ok: "filter (record_ok sample_env empty_store) ?inp = [ann_in, cy_in]"
    and bad: "filter (\<lambda>cd. \<not> record_ok sample_env empty_store cd) ?inp
               = [\<lparr>name = ''Bob'', email = ''bob'', phone = None\<rparr>]"
    by (simp_all add: record_ok_def sample_defs truthy_def)
  have h: "distinct (map email (filter (record_ok sample_env empty_store) ?inp))"
    by (simp add: ok) (simp add: ann_in_def cy_in_def)
  have e: "record_error sample_env empty_store \<lparr>name = ''Bob'', email = ''bob'', phone = None\<rparr>
            = ''Record for '' @ apos @ ''Bob'' @ apos @ '' failed: Enter a valid email address.''"
    by (simp add: record_error_def sample_defs)
  from BulkCreateCustomers_partial_success [OF h] obtain cs where
    ab: "BulkCreateCustomers_mutate sample_env empty_store ?inp
          = ((cs, map (record_error sample_env empty_store)
                    (filter (\<lambda>cd. \<not> record_ok sample_env empty_store cd) ?inp)),
             empty_store\<lparr>customers := customers empty_store @ cs\<rparr>)
       \<and> map (\<lambda>c. (c_name c, c_email c, c_phone c)) cs
          = map (\<lambda>cd. (name cd, email cd, phone cd))
                (filter (record_ok sample_env empty_store) ?inp)" ..
  from ab have a: "BulkCreateCustomers_mutate sample_env empty_store ?inp
          = ((cs, map (record_error sample_env empty_store)
                    (filter (\<lambda>cd. \<not> record_ok sample_env empty_store cd) ?inp)),
             empty_store\<lparr>customers := customers empty_store @ cs\<rparr>)" by (rule conjunct1)
  from ab have b: "map (\<lambda>c. (c_name c, c_email c, c_phone c)) cs
          = map (\<lambda>cd. (name cd, email cd, phone cd))
                (filter (record_ok sample_env empty_store) ?inp)" by (rule conjunct2)
  have a': "BulkCreateCustomers_mutate sample_env empty_store ?inp
             = ((cs, [''Record for '' @ apos @ ''Bob'' @ apos @ '' failed: Enter a valid email address.'']),
                empty_store\<lparr>customers := customers empty_store @ cs\<rparr>)"
    using a unfolding bad by (simp only: list.map e)
  have b': "map (\<lambda>c. (c_name c, c_email c, c_phone c)) cs
               = [(''Ann'', ''ann@x.org'', None), (''Cy'', ''cy@x.org'', None)]"
    using b unfolding ok by (simp add: ann_in_def cy_in_def)
  from a' b' have "\<exists>cs. BulkCreateCustomers_mutate sample_env empty_store ?inp
             = ((cs, [''Record for '' @ apos @ ''Bob'' @ apos @ '' failed: Enter a valid email address.'']),
                empty_store\<lparr>customers := customers empty_store @ cs\<rparr>)
           \<and> map (\<lambda>c. (c_name c, c_email c, c_phone c)) cs
               = [(''Ann'', ''ann@x.org'', None), (''Cy'', ''cy@x.org'', None)]"
    by (intro exI [of _ cs] conjI)
  with h show ?thesis by (rule conjI)
qed

text \<open>
  Claim C1 as stated fails. Ann, Bob and Cy each pass the three checks, Bob with Ann's
  address: nothing is created, Cy included, and the only message is the database error.
  And a record whose phone is given and empty, which does not match the pattern, is
  created with no message.
\<close>

theorem BulkCreateCustomers_partial_success_counterexample:
  "record_ok sample_env empty_store ann_in \<and> record_ok sample_env empty_store bob_in
   \<and> record_ok sample_env empty_store cy_in
   \<and> BulkCreateCustomers_mutate sample_env empty_store [ann_in, bob_in, cy_in]
       = (([], [''Database error during bulk creation: '' @ unique_violation]), empty_store)
   \<and> phone_validator [] \<noteq> None
   \<and> BulkCreateCustomers_mutate sample_env empty_store [ann_in\<lparr>phone := Some []\<rparr>]
       = (([ann\<lparr>c_phone := Some []\<rparr>], []), empty_store\<lparr>customers := [ann\<lparr>c_phone := Some []\<rparr>]\<rparr>)"
  by (simp add: record_ok_def bulk_defs sample_defs phone_defs)

section \<open>Claim C8: duplicate e-mails within one bulk input\<close>

text \<open>
  Claim C8, as amended. For every input list containing two records that share an e-mail
  and that each pass the checks of the loop (the e-mail is accepted by the validator and
  not stored, the phone is absent, empty or matches the pattern): the bulk insert violates
  the unique constraint, nothing is kept, the returned customers list is empty, also for
  the records with other fresh e-mails that were valid, the state is unchanged, and one
  database-error message is appended to the messages of the records that failed the
  checks.
\<close>

theorem BulkCreateCustomers_duplicates_in_batch:
  assumes "inp = xs @ a # ys @ b # zs"
    and "email a = email b"
    and "record_ok ev s a" and "record_ok ev s b"
  shows "BulkCreateCustomers_mutate ev s inp
          = (([], map (record_error ev s) (filter (\<lambda>cd. \<not> record_ok ev s cd) inp)
                   @ [''Database error during bulk creation: '' @ unique_violation]),
             s)"
proof -
  let ?batch = "map (\<lambda>cd. (name cd, email cd, phone cd)) (filter (record_ok ev s) inp)"
  have nd: "\<not> distinct (map email (filter (record_ok ev s) inp))"
    using assms by simp
  then have "\<not> (distinct (map (\<lambda>r. fst (snd r)) ?batch)
             \<and> set (map (\<lambda>r. fst (snd r)) ?batch) \<inter> set (map c_email (customers s)) = {})"
    by (simp only: batch_emails) simp
  then have fail: "bulk_create ev s ?batch = Inl unique_violation"
    by (rule bulk_create_fail)
  from nd have "?batch \<noteq> []" by auto
  then show ?thesis
    by (simp add: BulkCreateCustomers_mutate_def BulkCreateCustomers_fold fail)
qed

text \<open>At a concrete input: Ann and Bob share an address, and Cy is lost with them.\<close>

theorem BulkCreateCustomers_duplicates_in_batch_witness:
  "[ann_in, bob_in, cy_in] = [] @ ann_in # [] @ bob_in # [cy_in]
   \<and> email ann_in = email bob_in
   \<and> record_ok sample_env empty_store ann_in \<and> record_ok sample_env empty_store bob_in
   \<and> BulkCreateCustomers_mutate sample_env empty_store [ann_in, bob_in, cy_in]
       = (([], [''Database error during bulk creation: '' @ unique_violation]), empty_store)"
proof -
  have 1: "[ann_in, bob_in, cy_in] = [] @ ann_in # [] @ bob_in # [cy_in]" by simp
  have 2: "email ann_in = email bob_in" by (simp add: ann_in_def bob_in_def)
  have "filter (\<lambda>cd. \<not> record_ok sample_env empty_store cd) [ann_in, bob_in, cy_in] = []"
    by (simp add: record_ok_samples)
  with BulkCreateCustomers_duplicates_in_batch [OF 1 2 record_ok_samples(1,2)]
  have "BulkCreateCustomers_mutate sample_env empty_store [ann_in, bob_in, cy_in]
       = (([], [''Database error during bulk creation: '' @ unique_violation]), empty_store)"
    by simp
  with 1 2 record_ok_samples show ?thesis by blast
qed

text \<open>
  Claim C8 as stated fails: its two records need only share an e-mail that is not stored.
  When Bob, with Ann's address, has a phone that the pattern rejects, only Ann enters the
  batch: she is created, the customers list is not empty, and there is no database error.
\<close>

theorem BulkCreateCustomers_duplicates_in_batch_counterexample:
  "email ann_in = email (bob_in\<lparr>phone := Some ''12''\<rparr>)
   \<and> email ann_in \<notin> set (map c_email (customers empty_store))
   \<and> BulkCreateCustomers_mutate sample_env empty_store [ann_in, bob_in\<lparr>phone := Some ''12''\<rparr>]
       = (([ann], [''Record for '' @ apos @ ''Bob'' @ apos @ '' failed: '' @ phone_message]),
          ann_store)"
  by (simp add: bulk_defs sample_defs phone_defs)

section \<open>The customer table under each mutation\<close>

lemma CreateCustomer_customers:
  "customers (snd (CreateCustomer_mutate ev s inp)) = customers s
   \<or> (email inp \<notin> set (map c_email (customers s))
      \<and> customers (snd (CreateCustomer_mutate ev s inp))
          = customers s @ [\<lparr>c_id = next_pk (map c_id (customers s)), c_name = name inp,
                c_email = email inp, c_phone = phone inp, c_created_at = now ev\<rparr>])"
  by (auto simp: CreateCustomer_mutate_def CreateCustomer_try_def Customer_create_def
        insert_customer_def Let_def split: option.splits)

lemma CreateCustomer_emails_unique:
  "emails_unique s \<Longrightarrow> emails_unique (snd (CreateCustomer_mutate ev s inp))"
  using CreateCustomer_customers [of ev s inp]
  by (auto simp: emails_unique_def)

lemma bulk_create_emails_unique:
  "emails_unique s \<Longrightarrow> bulk_create ev s rs = Inr (cs, s') \<Longrightarrow> emails_unique s'"
proof (induction rs arbitrary: s cs)
  case Nil
  then show ?case by simp
next
  case (Cons r rs)
  obtain n e p where r: "r = (n, e, p)" by (cases r)
  let ?c = "\<lparr>c_id = next_pk (map c_id (customers s)), c_name = n, c_email = e,
                   c_phone = p, c_created_at = now ev\<rparr>"
  let ?s = "s\<lparr>customers := customers s @ [?c]\<rparr>"
  from Cons.prems(2) have fresh: "e \<notin> set (map c_email (customers s))"
    by (simp add: r bulk_create_Cons del: bulk_create.simps split: if_splits)
  with Cons.prems(1) have u: "emails_unique ?s" by (simp add: emails_unique_def)
  from Cons.prems(2) fresh obtain cs' where "bulk_create ev ?s rs = Inr (cs', s')"
    by (auto simp: r bulk_create_Cons simp del: bulk_create.simps split: sum.splits)
  from Cons.IH [OF u this] show ?case .
qed

lemma BulkCreateCustomers_emails_unique:
  "emails_unique s \<Longrightarrow> emails_unique (snd (BulkCreateCustomers_mutate ev s inp))"
  by (auto simp: BulkCreateCustomers_mutate_def split: prod.splits sum.splits
           dest: bulk_create_emails_unique)

lemma CreateProduct_customers:
  "customers (snd (CreateProduct_mutate ev s pinp)) = customers s"
  by (auto simp: CreateProduct_mutate_def Product_create_def Let_def
           split: option.splits sum.splits bool.splits decimal.splits)

lemma CreateOrder_body_customers:
  "customers (snd (CreateOrder_body ev s oinp)) = customers s"
  by (simp add: CreateOrder_body_def Order_create_def products_set_def Order_save_def Let_def
           split: option.splits sum.splits list.splits)

lemma CreateOrder_customers:
  "customers (snd (CreateOrder_mutate ev s oinp)) = customers s"
  using CreateOrder_body_customers [of ev s oinp]
  by (cases "CreateOrder_body ev s oinp")
     (auto simp: CreateOrder_mutate_def atomic_def split: sum.splits)

section \<open>Claim C6: unique e-mails as an invariant\<close>

text \<open>
  Claim C6. From any state in which no two stored customers share an e-mail, each of the
  four mutations (\<^verbatim>\<open>CreateCustomer\<close>, \<^verbatim>\<open>BulkCreateCustomers\<close>, \<^verbatim>\<open>CreateProduct\<close>,
  \<^verbatim>\<open>CreateOrder\<close>), on any input, yields a state in which no two stored customers share
  an e-mail.
\<close>

theorem emails_unique_invariant:
  assumes "emails_unique s"
  shows "emails_unique (snd (CreateCustomer_mutate ev s cinp))
       \<and> emails_unique (snd (BulkCreateCustomers_mutate ev s binp))
       \<and> emails_unique (snd (CreateProduct_mutate ev s pinp))
       \<and> emails_unique (snd (CreateOrder_mutate ev s oinp))"
  using assms CreateCustomer_emails_unique [of s ev cinp]
    BulkCreateCustomers_emails_unique [of s ev binp]
  by (simp add: emails_unique_def CreateProduct_customers CreateOrder_customers)

text \<open>At the state that holds Ann, for one input of each mutation.\<close>

theorem emails_unique_invariant_witness:
  "emails_unique ann_store
   \<and> emails_unique (snd (CreateCustomer_mutate sample_env ann_store cy_in))
   \<and> emails_unique (snd (BulkCreateCustomers_mutate sample_env ann_store [bob_in, cy_in]))
   \<and> emails_unique (snd (CreateProduct_mutate sample_env ann_store
          \<lparr>pi_name = ''pen'', pi_price = Num 1, pi_stock = Some 0\<rparr>))
   \<and> emails_unique (snd (CreateOrder_mutate sample_env ann_store
          \<lparr>customer_id = ''1'', product_ids = [''1'']\<rparr>))"
proof -
  have h: "emails_unique ann_store" by (simp add: emails_unique_def sample_defs)
  from emails_unique_invariant [OF h] h show ?thesis by blast
qed

section \<open>Keys and counts in \<^verbatim>\<open>CreateOrder\<close>\<close>

lemma ints_of_Some: "ints_of ev xs = Some ks \<Longrightarrow> map (py_int ev) xs = map Some ks"
  by (induction xs arbitrary: ks) (auto split: option.splits)

lemma ints_of_None: "ints_of ev xs = None \<Longrightarrow> \<exists>x \<in> set xs. py_int ev x = None"
  by (induction xs) (auto split: option.splits)

lemma ints_of_length: "ints_of ev xs = Some ks \<Longrightarrow> length ks = length xs"
  using ints_of_Some [of ev xs ks] by (metis length_map)


lemma ints_of_distinct:
  assumes "ints_of ev xs = Some ks" and "distinct ks"
  shows "distinct xs"
proof -
  from assms(1) have "map (py_int ev) xs = map Some ks" by (rule ints_of_Some)
  moreover from assms(2) have "distinct (map Some ks)" by (simp add: distinct_map)
  ultimately have "distinct (map (py_int ev) xs)" by simp
  then show ?thesis by (simp add: distinct_map)
qed

lemma count_pk:
  assumes "distinct (map p_id ps)"
  shows "length (filter (\<lambda>p. p_id p \<in> K) ps) = card (K \<inter> set (map p_id ps))"
proof -
  have d: "distinct (map p_id (filter (\<lambda>p. p_id p \<in> K) ps))"
    using assms by (rule distinct_map_filter)
  have "length (filter (\<lambda>p. p_id p \<in> K) ps) = length (map p_id (filter (\<lambda>p. p_id p \<in> K) ps))"
    by simp
  also have "\<dots> = card (set (map p_id (filter (\<lambda>p. p_id p \<in> K) ps)))"
    using d by (simp only: distinct_card)
  also have "set (map p_id (filter (\<lambda>p. p_id p \<in> K) ps)) = K \<inter> set (map p_id ps)"
    by auto
  finally show ?thesis .
qed

lemma count_eq_length:
  assumes "distinct (map p_id ps)"
    and "length (filter (\<lambda>p. p_id p \<in> set ks) ps) = length ks"
  shows "distinct ks \<and> set ks \<subseteq> set (map p_id ps)"
proof -
  from assms have c: "card (set ks \<inter> set (map p_id ps)) = length ks"
    by (simp add: count_pk)
  have "card (set ks \<inter> set (map p_id ps)) \<le> card (set ks)"
    by (rule card_mono) auto
  moreover have "card (set ks) \<le> length ks" by (rule card_length)
  ultimately have e: "card (set ks) = length ks"
    and e2: "card (set ks \<inter> set (map p_id ps)) = card (set ks)" using c by linarith+
  from e have "distinct ks" by (rule card_distinct)
  moreover have "set ks \<inter> set (map p_id ps) = set ks"
    by (rule card_subset_eq) (use e2 in auto)
  ultimately show ?thesis by blast
qed


lemma filter_key_single:
  "distinct (map f ps) \<Longrightarrow> q \<in> set ps \<Longrightarrow> filter (\<lambda>x. f x = f q) ps = [q]"
proof (induction ps)
  case Nil
  then show ?case by simp
next
  case (Cons a ps)
  show ?case
  proof (cases "q = a")
    case True
    from Cons.prems(1) have na: "f a \<notin> f ` set ps" by simp
    have "\<forall>x \<in> set ps. f x \<noteq> f a"
    proof
      fix x assume "x \<in> set ps"
      then have "f x \<in> f ` set ps" by (rule imageI)
      with na show "f x \<noteq> f a" by metis
    qed
    then have "filter (\<lambda>x. f x = f a) ps = []" by (simp add: filter_empty_conv)
    with True show ?thesis by simp
  next
    case False
    with Cons.prems have q: "q \<in> set ps" by simp
    with Cons.prems(1) have "f a \<noteq> f q" by auto
    moreover from Cons.prems(1) q have "filter (\<lambda>x. f x = f q) ps = [q]"
      by (intro Cons.IH) simp_all
    ultimately show ?thesis by simp
  qed
qed

lemma Customer_get_stored:
  assumes "distinct (map c_id (customers s))" and "c \<in> set (customers s)"
    and "py_int ev pk = Some (c_id c)"
  shows "Customer_get ev s pk = Inr (Some c)"
  using filter_key_single [OF assms(1,2)] assms(3)
  by (simp add: Customer_get_def)

lemma Customer_get_missing:
  assumes "\<forall>c \<in> set (customers s). py_int ev pk \<noteq> Some (c_id c)"
  shows "\<exists>e. Customer_get ev s pk = Inl e \<or> Customer_get ev s pk = Inr None"
proof (cases "py_int ev pk")
  case None
  then show ?thesis by (simp add: Customer_get_def)
next
  case (Some k)
  with assms have "filter (\<lambda>c. c_id c = k) (customers s) = []"
    by (auto simp: filter_empty_conv)
  with Some show ?thesis by (simp add: Customer_get_def)
qed

lemma CreateOrder_body_Inr:
  "fst (CreateOrder_body ev s inp) = Inr ord \<Longrightarrow>
   \<exists>c ks. product_ids inp \<noteq> [] \<and> Customer_get ev s (customer_id inp) = Inr (Some c)
     \<and> ints_of ev (product_ids inp) = Some ks
     \<and> length (filter (\<lambda>p. p_id p \<in> set ks) (products s)) = length (product_ids inp)"
  by (auto simp: CreateOrder_body_def Product_filter_pk_in_def Let_def
           split: if_splits sum.splits option.splits prod.splits)


lemma CreateOrder_mutate_Inl_state:
  "fst (CreateOrder_mutate ev s inp) = Inl e \<Longrightarrow> snd (CreateOrder_mutate ev s inp) = s"
  by (cases "CreateOrder_body ev s inp")
     (auto simp: CreateOrder_mutate_def atomic_def split: sum.splits)

lemma CreateOrder_mutate_fst:
  "fst (CreateOrder_mutate ev s inp) = fst (CreateOrder_body ev s inp)"
  by (cases "CreateOrder_body ev s inp")
     (auto simp: CreateOrder_mutate_def atomic_def split: sum.splits)

lemma not_Inr_Inl: "(\<nexists>v. x = Inr v) \<Longrightarrow> \<exists>e. x = Inl e"
  by (cases x) auto

section \<open>Claim C2: \<^verbatim>\<open>CreateOrder\<close> is atomic\<close>



section \<open>The two ends of \<^verbatim>\<open>CreateOrder\<close>\<close>

lemma CreateOrder_body_success:
  assumes "product_ids inp \<noteq> []"
    and "Customer_get ev s (customer_id inp) = Inr (Some c)"
    and "ints_of ev (product_ids inp) = Some ks"
    and "length (filter (\<lambda>p. p_id p \<in> set ks) (products s)) = length (product_ids inp)"
  shows "CreateOrder_body ev s inp =
     (let prods = filter (\<lambda>p. p_id p \<in> set ks) (products s);
          ord0 = \<lparr>o_id = next_pk (map o_id (orders s)), o_customer = c_id c,
                  o_order_date = now ev, o_total_amount = 0\<rparr>;
          s2 = products_set (s\<lparr>orders := orders s @ [ord0]\<rparr>) (o_id ord0) prods;
          ord' = ord0\<lparr>o_total_amount := calculate_total ev s2 ord0\<rparr>
      in (Inr ord', Order_save ev s2 ord'))"
  by (simp add: CreateOrder_body_def Product_filter_pk_in_def Order_create_def Let_def assms)

lemma invalid_ids_none:
  "ints_of ev xs = Some ks \<Longrightarrow> set ks \<subseteq> V \<Longrightarrow> invalid_ids_of ev V xs = Inr []"
  by (induction xs arbitrary: ks) (auto split: option.splits)

lemma ints_of_set_rev:
  "ints_of ev xs = Some ks \<Longrightarrow> k \<in> set ks \<Longrightarrow> \<exists>x \<in> set xs. py_int ev x = Some k"
  by (induction xs arbitrary: ks) (auto split: option.splits)

lemma CreateOrder_body_invalid:
  assumes "product_ids inp \<noteq> []"
    and "Customer_get ev s (customer_id inp) = Inr (Some c)"
    and "ints_of ev (product_ids inp) = Some ks"
    and "length (filter (\<lambda>p. p_id p \<in> set ks) (products s)) \<noteq> length (product_ids inp)"
    and "invalid_ids_of ev (set (map p_id (filter (\<lambda>p. p_id p \<in> set ks) (products s))))
           (product_ids inp) = Inr xs"
  shows "CreateOrder_body ev s inp =
     (Inl (Exception (''Validation Error: Invalid product ID(s) found: '' @ join '', '' xs)), s)"
  using assms by (simp add: CreateOrder_body_def Product_filter_pk_in_def Let_def)

lemma CreateOrder_mutate_body:
  "CreateOrder_mutate ev s inp =
     (case fst (CreateOrder_body ev s inp) of
        Inl e \<Rightarrow> (Inl e, s)
      | Inr v \<Rightarrow> CreateOrder_body ev s inp)"
  by (cases "CreateOrder_body ev s inp")
     (auto simp: CreateOrder_mutate_def atomic_def split: sum.splits)

lemma repeated_ids_fail:
  assumes "distinct (map p_id (products s))" and "\<not> distinct (product_ids inp)"
  shows "\<nexists>ord. fst (CreateOrder_body ev s inp) = Inr ord"
proof
  assume "\<exists>ord. fst (CreateOrder_body ev s inp) = Inr ord"
  then obtain ord where "fst (CreateOrder_body ev s inp) = Inr ord" ..
  from CreateOrder_body_Inr [OF this] obtain c ks where
    io: "ints_of ev (product_ids inp) = Some ks"
    and len: "length (filter (\<lambda>p. p_id p \<in> set ks) (products s)) = length (product_ids inp)"
    by blast
  from len ints_of_length [OF io]
  have "length (filter (\<lambda>p. p_id p \<in> set ks) (products s)) = length ks" by simp
  from count_eq_length [OF assms(1) this] have "distinct ks" by simp
  from ints_of_distinct [OF io this] assms(2) show False by simp
qed

section \<open>Claim C9: repeated product ids\<close>

text \<open>
  Claim C9. In a state whose tables have distinct keys, for every input whose list of
  product ids contains the same id more than once, \<^verbatim>\<open>CreateOrder\<close> raises an error and
  the state is unchanged, so no order is created. When moreover the customer id and every
  listed id refer to stored rows, the error carries the message
  \<^verbatim>\<open>Validation Error: Invalid product ID(s) found: \<close> with an empty listing.
\<close>

theorem CreateOrder_repeated_product_ids:
  assumes "keys_ok s" and "\<not> distinct (product_ids inp)"
  shows "(\<exists>e. fst (CreateOrder_mutate ev s inp) = Inl e)
       \<and> snd (CreateOrder_mutate ev s inp) = s
       \<and> ((\<exists>c \<in> set (customers s). py_int ev (customer_id inp) = Some (c_id c))
            \<and> (\<forall>pid \<in> set (product_ids inp). \<exists>p \<in> set (products s). py_int ev pid = Some (p_id p))
          \<longrightarrow> fst (CreateOrder_mutate ev s inp)
                = Inl (Exception ''Validation Error: Invalid product ID(s) found: ''))"
proof -
  from assms(1) have dp: "distinct (map p_id (products s))"
    and dc: "distinct (map c_id (customers s))" by (simp_all add: keys_ok_def)
  have nr: "\<nexists>ord. fst (CreateOrder_body ev s inp) = Inr ord"
    using dp assms(2) by (rule repeated_ids_fail)
  then obtain e where e: "fst (CreateOrder_mutate ev s inp) = Inl e"
    using not_Inr_Inl [of "fst (CreateOrder_body ev s inp)"]
    by (auto simp only: CreateOrder_mutate_fst)
  have msg: "fst (CreateOrder_mutate ev s inp)
                = Inl (Exception ''Validation Error: Invalid product ID(s) found: '')"
    if cu: "\<exists>c \<in> set (customers s). py_int ev (customer_id inp) = Some (c_id c)"
    and pr: "\<forall>pid \<in> set (product_ids inp). \<exists>p \<in> set (products s). py_int ev pid = Some (p_id p)"
  proof -
    from assms(2) have ne: "product_ids inp \<noteq> []" by auto
    from cu obtain c where "c \<in> set (customers s)" "py_int ev (customer_id inp) = Some (c_id c)"
      by blast
    with dc have cg: "Customer_get ev s (customer_id inp) = Inr (Some c)"
      by (intro Customer_get_stored)
    have "ints_of ev (product_ids inp) \<noteq> None"
    proof
      assume "ints_of ev (product_ids inp) = None"
      from ints_of_None [OF this] pr show False by auto
    qed
    then obtain ks where io: "ints_of ev (product_ids inp) = Some ks" by auto
    let ?prods = "filter (\<lambda>p. p_id p \<in> set ks) (products s)"
    have len: "length ?prods \<noteq> length (product_ids inp)"
    proof
      assume "length ?prods = length (product_ids inp)"
      with CreateOrder_body_success [OF ne cg io this] nr show False
        by (simp add: Let_def)
    qed
    have "set ks \<subseteq> set (map p_id ?prods)"
    proof
      fix k assume k: "k \<in> set ks"
      from ints_of_set_rev [OF io k] obtain pid where
        pid: "pid \<in> set (product_ids inp)" "py_int ev pid = Some k" by blast
      with pr obtain p where "p \<in> set (products s)" "p_id p = k" by fastforce
      with k show "k \<in> set (map p_id ?prods)" by auto
    qed
    from invalid_ids_none [OF io this]
    have "invalid_ids_of ev (set (map p_id ?prods)) (product_ids inp) = Inr []" .
    from CreateOrder_body_invalid [OF ne cg io len this] show ?thesis
      by (simp add: CreateOrder_mutate_fst)
  qed
  from e CreateOrder_mutate_Inl_state [OF e] msg show ?thesis by blast
qed

lemma keys_ok_shop: "keys_ok shop_store"
  by (simp add: keys_ok_def sample_defs)

text \<open>At a concrete input: the stored product 1 is listed twice.\<close>

theorem CreateOrder_repeated_product_ids_witness:
  "keys_ok shop_store
   \<and> \<not> distinct (product_ids \<lparr>customer_id = ''1'', product_ids = [''1'', ''1'']\<rparr>)
   \<and> ann \<in> set (customers shop_store) \<and> py_int sample_env ''1'' = Some (c_id ann)
   \<and> pen \<in> set (products shop_store) \<and> py_int sample_env ''1'' = Some (p_id pen)
   \<and> CreateOrder_mutate sample_env shop_store \<lparr>customer_id = ''1'', product_ids = [''1'', ''1'']\<rparr>
       = (Inl (Exception ''Validation Error: Invalid product ID(s) found: ''), shop_store)"
proof -
  let ?inp = "\<lparr>customer_id = ''1'', product_ids = [''1'', ''1'']\<rparr>"
  have nd: "\<not> distinct (product_ids ?inp)" by simp
  have facts: "ann \<in> set (customers shop_store)" "py_int sample_env ''1'' = Some (c_id ann)"
    "pen \<in> set (products shop_store)" "py_int sample_env ''1'' = Some (p_id pen)"
    by (simp_all add: sample_defs)
  from facts(1,2)
  have c: "\<exists>c \<in> set (customers shop_store). py_int sample_env (customer_id ?inp) = Some (c_id c)"
    by (intro bexI [of _ ann]) simp_all
  from facts(3,4)
  have p: "\<forall>pid \<in> set (product_ids ?inp).
         \<exists>p \<in> set (products shop_store). py_int sample_env pid = Some (p_id p)"
    by (intro ballI bexI [of _ pen]) simp_all
  from CreateOrder_repeated_product_ids [OF keys_ok_shop nd, of sample_env] c p
  have "fst (CreateOrder_mutate sample_env shop_store ?inp)
          = Inl (Exception ''Validation Error: Invalid product ID(s) found: '')"
    and "snd (CreateOrder_mutate sample_env shop_store ?inp) = shop_store" by blast+
  then have "CreateOrder_mutate sample_env shop_store ?inp
       = (Inl (Exception ''Validation Error: Invalid product ID(s) found: ''), shop_store)"
    by (simp add: prod_eq_iff)
  with keys_ok_shop nd facts show ?thesis by (intro conjI)
qed

section \<open>What a successful order leaves behind\<close>

text \<open>
  The associations of the new order are the stored products whose keys were listed, the
  total of the returned order is \<open>calculate_total\<close> over them, and the new row holds the
  double of that total. How the total compares with the sum of the prices is a matter of
  the floating-point arithmetic of the database, which the environment stands for.
\<close>

lemma concat_key_single:
  "distinct (map f xs) \<Longrightarrow> set qs \<subseteq> set xs \<Longrightarrow>
   concat (map (\<lambda>q. filter (\<lambda>x. f x = f q) xs) qs) = qs"
  by (induction qs) (simp_all add: filter_key_single)

lemma products_set_fresh:
  assumes "list_all (\<lambda>(i, k). i \<noteq> oid) (order_products s)" and "distinct (map p_id ps)"
  shows "order_products (products_set s oid ps) = order_products s @ map (\<lambda>p. (oid, p_id p)) ps"
proof -
  have keep: "filter (\<lambda>(i, k). i \<noteq> oid \<or> k \<in> set (map p_id ps)) (order_products s)
                = order_products s"
    using assms(1) by (auto simp: list_all_iff intro!: filter_True)
  have old: "filter (\<lambda>(i, k). i = oid) (order_products s) = []"
    using assms(1) by (auto simp: list_all_iff filter_empty_conv)
  have new: "filter (\<lambda>k. k \<notin> set (map snd ([] :: (int \<times> int) list))) (remdups (map p_id ps))
               = map p_id ps"
    using assms(2) by simp
  have "order_products (products_set s oid ps)
          = order_products s @ map (\<lambda>k. (oid, k)) (map p_id ps)"
    unfolding products_set_def Let_def keep old new by simp
  then show ?thesis by simp
qed

lemma products_set_other:
  "products (products_set s oid ps) = products s" "orders (products_set s oid ps) = orders s"
  by (simp_all add: products_set_def Let_def)

lemma products_of_fresh:
  assumes "order_products s = ops @ map (\<lambda>p. (oid, p_id p)) ps"
    and "list_all (\<lambda>(i, k). i \<noteq> oid) ops" and "distinct (map p_id (products s))"
    and "set ps \<subseteq> set (products s)"
  shows "products_of s oid = ps"
proof -
  let ?g = "\<lambda>(i, k). if i = oid then filter (\<lambda>p. p_id p = k) (products s) else []"
  have a: "concat (map ?g ops) = []"
    using assms(2) by (auto simp: list_all_iff)
  have "map ?g (map (\<lambda>p. (oid, p_id p)) ps)
          = map (\<lambda>q. filter (\<lambda>x. p_id x = p_id q) (products s)) ps"
    by simp
  then have b: "concat (map ?g (map (\<lambda>p. (oid, p_id p)) ps)) = ps"
    using concat_key_single [OF assms(3,4)] by (simp only:)
  have "products_of s oid
          = concat (map ?g ops) @ concat (map ?g (map (\<lambda>p. (oid, p_id p)) ps))"
    unfolding products_of_def assms(1) by (simp only: map_append concat_append)
  then show ?thesis by (simp only: a b append_Nil)
qed

lemma map_fresh_key: "k \<notin> f ` set xs \<Longrightarrow> map (\<lambda>r. if f r = k then y else r) xs = xs"
  by (induction xs) auto

lemma CreateOrder_success:
  assumes "keys_ok s" and "CreateOrder_mutate ev s inp = (Inr ord, s')"
  shows "\<exists>c ks. Customer_get ev s (customer_id inp) = Inr (Some c)
           \<and> ints_of ev (product_ids inp) = Some ks
           \<and> products_of s' (o_id ord) = filter (\<lambda>p. p_id p \<in> set ks) (products s)
           \<and> o_total_amount ord = calculate_total ev s' ord
           \<and> orders s' = orders s @ [ord\<lparr>o_total_amount := column_real ev (o_total_amount ord)\<rparr>]
           \<and> o_id ord \<notin> set (map o_id (orders s))
           \<and> o_customer ord = c_id c
           \<and> products s' = products s \<and> customers s' = customers s"
proof -
  from assms(2) have body: "CreateOrder_body ev s inp = (Inr ord, s')"
    by (cases "CreateOrder_body ev s inp")
       (auto simp: CreateOrder_mutate_def atomic_def split: sum.splits)
  then have "fst (CreateOrder_body ev s inp) = Inr ord" by simp
  from CreateOrder_body_Inr [OF this] obtain c ks where
    ne: "product_ids inp \<noteq> []"
    and cg: "Customer_get ev s (customer_id inp) = Inr (Some c)"
    and io: "ints_of ev (product_ids inp) = Some ks"
    and len: "length (filter (\<lambda>p. p_id p \<in> set ks) (products s)) = length (product_ids inp)"
    by blast
  let ?prods = "filter (\<lambda>p. p_id p \<in> set ks) (products s)"
  let ?oid = "next_pk (map o_id (orders s))"
  let ?ord0 = "\<lparr>o_id = ?oid, o_customer = c_id c, o_order_date = now ev, o_total_amount = 0\<rparr>"
  let ?s1 = "s\<lparr>orders := orders s @ [?ord0]\<rparr>"
  let ?s2 = "products_set ?s1 ?oid ?prods"
  let ?ord' = "?ord0\<lparr>o_total_amount := calculate_total ev ?s2 ?ord0\<rparr>"
  from CreateOrder_body_success [OF ne cg io len] body
  have ord: "ord = ?ord'" and s': "s' = Order_save ev ?s2 ?ord'"
    by (simp_all add: Let_def)
  from assms(1) have dp: "distinct (map p_id (products s))"
    and fk: "list_all (\<lambda>(i, k). i \<in> set (map o_id (orders s))) (order_products s)"
    by (simp_all add: keys_ok_def)
  have fresh: "?oid \<notin> set (map o_id (orders s))" by (rule next_pk_fresh)
  have nofk: "list_all (\<lambda>(i, k). i \<noteq> ?oid) (order_products ?s1)"
    using fk fresh by (auto simp: list_all_iff)
  have dprods: "distinct (map p_id ?prods)" using dp by (rule distinct_map_filter)
  have op2: "order_products ?s2 = order_products s @ map (\<lambda>p. (?oid, p_id p)) ?prods"
    using products_set_fresh [OF nofk dprods] by simp
  have p2: "products ?s2 = products s" by (simp add: products_set_other)
  have o2: "orders ?s2 = orders s @ [?ord0]" by (simp add: products_set_other)
  have c2: "customers ?s2 = customers s" by (simp add: products_set_def Let_def)
  have ops': "order_products s' = order_products s @ map (\<lambda>p. (?oid, p_id p)) ?prods"
    and ps': "products s' = products s" and cs': "customers s' = customers s"
    by (simp_all add: s' Order_save_def op2 p2 c2)
  have nofk': "list_all (\<lambda>(i, k). i \<noteq> ?oid) (order_products s)"
    using nofk by simp
  have po: "products_of s' ?oid = ?prods"
    by (rule products_of_fresh [OF ops' nofk']) (simp_all add: ps' dp)
  have "products_of ?s2 ?oid = ?prods"
    by (rule products_of_fresh [OF op2 nofk']) (simp_all add: p2 dp)
  with po have po2: "products_of ?s2 ?oid = products_of s' ?oid" by simp
  have tot: "o_total_amount ord = calculate_total ev s' ord"
    by (simp add: ord calculate_total_def po2)
  have oid0: "o_id ord = ?oid" by (simp add: ord)
  have s'2: "s' = Order_save ev ?s2 ord" by (simp only: s' ord)
  let ?row = "ord\<lparr>o_total_amount := column_real ev (o_total_amount ord)\<rparr>"
  have mp: "map (\<lambda>r. if o_id r = ?oid then ?row else r) (orders s) = orders s"
    using fresh by (intro map_fresh_key) simp
  have "orders s' = map (\<lambda>r. if o_id r = ?oid then ?row else r) (orders s @ [?ord0])"
    unfolding s'2 Order_save_def oid0 o2 by simp
  also have "\<dots> = map (\<lambda>r. if o_id r = ?oid then ?row else r) (orders s) @ [?row]"
    by simp
  finally have os': "orders s' = orders s @ [?row]" by (simp only: mp)
  have oid: "o_id ord = ?oid" and oc: "o_customer ord = c_id c" by (simp_all add: ord)
  from cg io po tot os' fresh oid oc ps' cs' show ?thesis by (intro exI [of _ c] exI [of _ ks]) simp
qed

end
